theory Spec2Isabelle
  imports Main "HOL-Library.Word"
begin

section \<open>Python values used by the proxy\<close>

text \<open>
  A Python \<open>str\<close> is a sequence of code points. It is modelled as a \<open>string\<close> whose
  characters are the code points below 256 (operation names, dictionary keys and tokens
  of the proxy are ASCII identifiers). On this range \<open>str.isupper\<close> holds of \<open>A\<close>..\<open>Z\<close> and
  of the Latin-1 capitals U+00C0..U+00DE other than the multiplication sign U+00D7, and
  \<open>str.lower\<close> moves exactly these 32 code points up.
\<close>

definition isupper :: "char \<Rightarrow> bool" where
  "isupper c =
     (let n = (of_char c :: nat)
      in (65 \<le> n \<and> n \<le> 90) \<or> (192 \<le> n \<and> n \<le> 222 \<and> n \<noteq> 215))"

definition lower_char :: "char \<Rightarrow> char" where
  "lower_char c = (if isupper c then char_of ((of_char c :: nat) + 32) else c)"

definition lower :: "string \<Rightarrow> string" where
  "lower s = map lower_char s"

definition startswith :: "string \<Rightarrow> string \<Rightarrow> bool" where
  "startswith s p = (take (length p) s = p)"

text \<open>\<open>str.lstrip('_')\<close>: every leading underscore is dropped.\<close>

definition lstrip_underscore :: "string \<Rightarrow> string" where
  "lstrip_underscore s = dropWhile (\<lambda>c. c = CHR ''_'') s"

section \<open>Service resolution (\<open>BedrockClientManager._determine_service\<close>)\<close>

text \<open>
  The dictionary \<open>BEDROCK_SERVICES\<close> (\<open>self.bedrock_services\<close> in
  \<open>services/bedrock_client.py\<close>, \<open>Config.BEDROCK_SERVICES\<close> in \<open>proxyapp.py\<close>) has the
  three constant keys \<open>"runtime"\<close>, \<open>"agent"\<close> and \<open>"default"\<close>; the code only ever indexes
  it with these literals.
\<close>

datatype service_key = Runtime | Agent | Default

fun BEDROCK_SERVICES :: "service_key \<Rightarrow> string" where
  "BEDROCK_SERVICES Runtime = ''bedrock-runtime''"
| "BEDROCK_SERVICES Agent = ''bedrock-agent''"
| "BEDROCK_SERVICES Default = ''bedrock''"

text \<open>The same body stands in both files.\<close>

definition determine_service :: "string \<Rightarrow> string" where
  "determine_service operation =
     (let operation_lower = lower operation
      in if startswith operation_lower ''invoke'' \<or> startswith operation_lower ''stream''
         then BEDROCK_SERVICES Runtime
         else if startswith operation_lower ''agent''
         then BEDROCK_SERVICES Agent
         else BEDROCK_SERVICES Default)"

subsection \<open>The rule table of the specification\<close>

text \<open>
  The specification's words: an ordered list of rules, each a set of prefixes and a
  service key; a prefix matches when the operation name begins with it up to letter case;
  the first rule with a matching prefix decides, and the default service is the answer
  when no rule matches.
\<close>

definition spec_rules :: "(string list \<times> service_key) list" where
  "spec_rules = [([''invoke'', ''stream''], Runtime), ([''agent''], Agent)]"

definition ci_prefix :: "string \<Rightarrow> string \<Rightarrow> bool" where
  "ci_prefix p s = (length p \<le> length s \<and> lower (take (length p) s) = lower p)"

fun first_match :: "(string list \<times> service_key) list \<Rightarrow> string \<Rightarrow> service_key" where
  "first_match [] s = Default"
| "first_match ((ps, k) # rules) s =
     (if list_ex (\<lambda>p. ci_prefix p s) ps then k else first_match rules s)"

definition spec_resolveService :: "string \<Rightarrow> service_key" where
  "spec_resolveService s = first_match spec_rules s"

section \<open>Time, exceptions and upstream calls\<close>

text \<open>
  A \<open>datetime\<close> is a count of microseconds (the resolution of Python's \<open>datetime\<close>), and
  \<open>timedelta(seconds=n)\<close> is \<open>n\<close> million of them; comparison and subtraction are exact.
\<close>

type_synonym datetime = int

definition timedelta :: "int \<Rightarrow> int" where
  "timedelta seconds = seconds * 1000000"

text \<open>
  Formatting with \<open>"%Y-%m-%d %H:%M:%S"\<close> and parsing the text back drops the microsecond
  field (and the time zone) of a \<open>datetime\<close>.
\<close>

definition strip_microseconds :: "datetime \<Rightarrow> datetime" where
  "strip_microseconds d = (d div 1000000) * 1000000"

text \<open>
  Exceptions are values. \<open>HTTPException status detail cause\<close> is FastAPI's exception: the
  detail is the constant text of the f-string, and \<open>cause\<close> is the exception whose \<open>str()\<close>
  the f-string appends, when there is one. \<open>Exception\<close> is the plain exception that
  \<open>_refresh_credentials\<close> raises, built the same way. \<open>HTTPError\<close> is \<open>httpx.HTTPError\<close>
  with its subclasses; \<open>LibraryError\<close> stands for an exception of any class that no
  handler of the repository names (a refresh error of the identity library, a client
  error of the AWS library, a JSON decoding error).
\<close>

datatype exn =
    HTTPException nat string "exn option"
  | Exception string "exn option"
  | HTTPError string
  | AttributeError string
  | KeyError string
  | TypeError string
  | ValueError string
  | UnicodeDecodeError
  | LibraryError string

text \<open>The calls that leave the process, in the order they are made.\<close>

datatype net_call =
    IdentityRefresh
  | AssumeRoleWithWebIdentity
  | GatewayPost
  | BackendCall string string

text \<open>Subscripting a dictionary with string keys: a missing key raises \<open>KeyError\<close>.\<close>

definition subscript :: "(string \<times> 'v) list \<Rightarrow> string \<Rightarrow> exn + 'v" where
  "subscript d k = (case map_of d k of None \<Rightarrow> Inl (KeyError k) | Some v \<Rightarrow> Inr v)"

text \<open>
  Truth value testing, as \<open>not x\<close> applies it: \<open>None\<close>, the empty string and the empty
  dictionary are false; a \<open>datetime\<close> and a credentials object are true whenever they are
  not \<open>None\<close>.
\<close>

definition falsy :: "'a list option \<Rightarrow> bool" where
  "falsy x = (case x of None \<Rightarrow> True | Some v \<Rightarrow> v = [])"

text \<open>
  The handle of \<open>google.auth.identity_pool.Credentials\<close>: the arguments it was built from
  and the token its last refresh stored.
\<close>

record identity_pool_credentials =
  audience :: string
  subject_token_type :: string
  token_url :: string
  scope :: "string list option"
  token :: "string option"

section \<open>The identity-token cache (\<open>auth/gcp_credentials.py\<close>)\<close>

record gcp_token_manager =
  gcp_workload_identity_pool :: string
  gcp_provider_id :: string
  token_cache :: "string option"
  token_expiry :: "datetime option"
  credentials :: "identity_pool_credentials option"
  gcp_refresh_buffer :: int

text \<open>
  \<open>__init__\<close>: the two settings come from the environment (\<open>None\<close> when unset); a missing
  or empty one raises \<open>ValueError\<close>.
\<close>

definition GCPTokenManager :: "string option \<Rightarrow> string option \<Rightarrow> exn + gcp_token_manager" where
  "GCPTokenManager pool provider =
     (case (pool, provider) of
        (Some p, Some q) \<Rightarrow>
          if p = [] \<or> q = [] then Inl (ValueError ''Missing required GCP configuration'')
          else Inr \<lparr>gcp_workload_identity_pool = p, gcp_provider_id = q,
                    token_cache = None, token_expiry = None, credentials = None,
                    gcp_refresh_buffer = 300\<rparr>
      | _ \<Rightarrow> Inl (ValueError ''Missing required GCP configuration''))"

text \<open>
  What one call of \<open>get_token\<close> meets outside the process: the clock read by the validity
  check, whether constructing the handle raises, what \<open>refresh\<close> does (it raises, or it
  stores a token in the handle), and the clock read when the expiry is computed.
\<close>

record gcp_io =
  gcp_now :: datetime
  gcp_construct :: "exn option"
  gcp_refresh :: "exn + string"
  gcp_now_after :: datetime

definition is_token_valid :: "gcp_token_manager \<Rightarrow> datetime \<Rightarrow> bool" where
  "is_token_valid s now =
     (if falsy (token_cache s) \<or> token_expiry s = None then False
      else (case token_expiry s of
              None \<Rightarrow> False
            | Some expiry \<Rightarrow> now < expiry - timedelta (gcp_refresh_buffer s)))"

definition gcp_clear_cache :: "gcp_token_manager \<Rightarrow> gcp_token_manager" where
  "gcp_clear_cache s = s\<lparr>token_cache := None, token_expiry := None, credentials := None\<rparr>"

text \<open>
  The body of the \<open>try\<close> block of \<open>get_token\<close>: the result, the manager as the block leaves
  it, and the calls made.
\<close>

definition get_token_try ::
  "gcp_io \<Rightarrow> gcp_token_manager \<Rightarrow> (exn + string option) \<times> gcp_token_manager \<times> net_call list" where
  "get_token_try io s =
     (case (case credentials s of
              Some h \<Rightarrow> Inr h
            | None \<Rightarrow>
                (case gcp_construct io of
                   Some e \<Rightarrow> Inl e
                 | None \<Rightarrow>
                     Inr \<lparr>audience = gcp_provider_id s,
                          subject_token_type = ''urn:ietf:params:oauth:token-type:jwt'',
                          token_url = gcp_workload_identity_pool s,
                          scope = Some [''https://www.googleapis.com/auth/cloud-platform''],
                          token = None\<rparr>)) of
        Inl e \<Rightarrow> (Inl e, s, [])
      | Inr h \<Rightarrow>
          (case gcp_refresh io of
             Inl e \<Rightarrow> (Inl e, s\<lparr>credentials := Some h\<rparr>, [IdentityRefresh])
           | Inr tok \<Rightarrow>
               (let h' = h\<lparr>token := Some tok\<rparr>;
                    s' = s\<lparr>credentials := Some h',
                           token_cache := token h',
                           token_expiry := Some (gcp_now_after io + timedelta 3600)\<rparr>
                in (Inr (token_cache s'), s', [IdentityRefresh]))))"

definition get_token ::
  "gcp_io \<Rightarrow> gcp_token_manager \<Rightarrow> (exn + string option) \<times> gcp_token_manager \<times> net_call list" where
  "get_token io s =
     (if is_token_valid s (gcp_now io) then (Inr (token_cache s), s, [])
      else (case get_token_try io s of
              (Inl e, s', calls) \<Rightarrow>
                (Inl (HTTPException 500 ''Failed to get Google Cloud token: '' (Some e)),
                 gcp_clear_cache s', calls)
            | (Inr t, s', calls) \<Rightarrow> (Inr t, s', calls)))"

definition get_authorization_headers ::
  "gcp_io \<Rightarrow> gcp_token_manager \<Rightarrow>
     (exn + (string \<times> string) list) \<times> gcp_token_manager \<times> net_call list" where
  "get_authorization_headers io s =
     (case get_token io s of
        (Inl e, s', calls) \<Rightarrow> (Inl e, s', calls)
      | (Inr t, s', calls) \<Rightarrow>
          (Inr [(''Authorization'', ''Bearer '' @ (case t of None \<Rightarrow> ''None'' | Some v \<Rightarrow> v)),
                (''Content-Type'', ''application/json'')], s', calls))"

section \<open>The credential-set cache (\<open>auth/aws_credentials.py\<close>)\<close>

record aws_credentials_manager =
  aws_role_arn :: string
  aws_workload_identity_pool :: string
  aws_provider_id :: string
  region :: string
  credentials_cache :: "(string \<times> string) list option"
  credentials_expiry :: "datetime option"
  google_credentials :: "identity_pool_credentials option"
  session_duration :: int
  aws_refresh_buffer :: int

text \<open>\<open>__init__\<close>: the region defaults to \<open>us-east-1\<close> when the environment has none.\<close>

definition AWSCredentialsManager ::
  "string option \<Rightarrow> string option \<Rightarrow> string option \<Rightarrow> string option \<Rightarrow>
     exn + aws_credentials_manager" where
  "AWSCredentialsManager role pool provider reg =
     (case (role, pool, provider) of
        (Some r, Some p, Some q) \<Rightarrow>
          if r = [] \<or> p = [] \<or> q = [] then Inl (ValueError ''Missing required AWS configuration'')
          else Inr \<lparr>aws_role_arn = r, aws_workload_identity_pool = p, aws_provider_id = q,
                    region = (case reg of None \<Rightarrow> ''us-east-1'' | Some v \<Rightarrow> v),
                    credentials_cache = None, credentials_expiry = None,
                    google_credentials = None,
                    session_duration = 3600, aws_refresh_buffer = 300\<rparr>
      | _ \<Rightarrow> Inl (ValueError ''Missing required AWS configuration''))"

text \<open>
  The reply of \<open>assume_role_with_web_identity\<close>: the string entries of its
  \<open>Credentials\<close> dictionary, and the \<open>Expiration\<close> entry of that dictionary when it has
  one (a \<open>datetime\<close>).
\<close>

record sts_response =
  Credentials :: "(string \<times> string) list"
  Expiration :: "datetime option"

text \<open>
  What one call of \<open>get_credentials\<close> meets outside the process: the clock read by
  \<open>_should_refresh_credentials\<close>, whether constructing the handle raises, what its
  \<open>refresh\<close> does, and what creating the STS client and calling it does.
\<close>

record aws_io =
  aws_utcnow :: datetime
  aws_construct :: "exn option"
  aws_refresh :: "exn + string"
  aws_assume_role :: "exn + sts_response"

definition should_refresh_credentials :: "aws_credentials_manager \<Rightarrow> datetime \<Rightarrow> bool" where
  "should_refresh_credentials s now =
     (if falsy (credentials_cache s) \<or> credentials_expiry s = None then True
      else (case credentials_expiry s of
              None \<Rightarrow> True
            | Some expiry \<Rightarrow> now \<ge> expiry - timedelta (aws_refresh_buffer s)))"

definition aws_clear_cache :: "aws_credentials_manager \<Rightarrow> aws_credentials_manager" where
  "aws_clear_cache s =
     s\<lparr>credentials_cache := None, credentials_expiry := None, google_credentials := None\<rparr>"

text \<open>The dictionary written to the cache, its three entries read in this order.\<close>

definition cache_entry :: "sts_response \<Rightarrow> exn + (string \<times> string) list" where
  "cache_entry response =
     (case subscript (Credentials response) ''AccessKeyId'' of
        Inl e \<Rightarrow> Inl e
      | Inr a \<Rightarrow>
          (case subscript (Credentials response) ''SecretAccessKey'' of
             Inl e \<Rightarrow> Inl e
           | Inr b \<Rightarrow>
               (case subscript (Credentials response) ''SessionToken'' of
                  Inl e \<Rightarrow> Inl e
                | Inr c \<Rightarrow>
                    Inr [(''aws_access_key_id'', a), (''aws_secret_access_key'', b),
                         (''aws_session_token'', c)])))"

text \<open>
  The body of the \<open>try\<close> block of \<open>_refresh_credentials\<close>. The cache is assigned before the
  expiry is read from the reply, so a reply without \<open>Expiration\<close> leaves the block with
  the new cache and the old expiry.
\<close>

definition refresh_credentials_try ::
  "aws_io \<Rightarrow> aws_credentials_manager \<Rightarrow> (exn + unit) \<times> aws_credentials_manager \<times> net_call list" where
  "refresh_credentials_try io s =
     (case (case google_credentials s of
              Some h \<Rightarrow> Inr h
            | None \<Rightarrow>
                (case aws_construct io of
                   Some e \<Rightarrow> Inl e
                 | None \<Rightarrow>
                     Inr \<lparr>audience = aws_provider_id s,
                          subject_token_type = ''urn:ietf:params:oauth:token-type:jwt'',
                          token_url = aws_workload_identity_pool s,
                          scope = None,
                          token = None\<rparr>)) of
        Inl e \<Rightarrow> (Inl e, s, [])
      | Inr h \<Rightarrow>
          (case aws_refresh io of
             Inl e \<Rightarrow> (Inl e, s\<lparr>google_credentials := Some h\<rparr>, [IdentityRefresh])
           | Inr tok \<Rightarrow>
               (let s1 = s\<lparr>google_credentials := Some (h\<lparr>token := Some tok\<rparr>)\<rparr>;
                    calls = [IdentityRefresh, AssumeRoleWithWebIdentity]
                in (case aws_assume_role io of
                      Inl e \<Rightarrow> (Inl e, s1, calls)
                    | Inr response \<Rightarrow>
                        (case cache_entry response of
                           Inl e \<Rightarrow> (Inl e, s1, calls)
                         | Inr entry \<Rightarrow>
                             (let s2 = s1\<lparr>credentials_cache := Some entry\<rparr>
                              in (case Expiration response of
                                    None \<Rightarrow> (Inl (KeyError ''Expiration''), s2, calls)
                                  | Some expiration \<Rightarrow>
                                      (Inr (),
                                       s2\<lparr>credentials_expiry :=
                                            Some (strip_microseconds expiration)\<rparr>,
                                       calls))))))))"

definition refresh_credentials ::
  "aws_io \<Rightarrow> aws_credentials_manager \<Rightarrow> (exn + unit) \<times> aws_credentials_manager \<times> net_call list" where
  "refresh_credentials io s =
     (case refresh_credentials_try io s of
        (Inl e, s', calls) \<Rightarrow>
          (Inl (Exception ''Failed to refresh AWS credentials: '' (Some e)),
           aws_clear_cache s', calls)
      | (Inr u, s', calls) \<Rightarrow> (Inr u, s', calls))"

definition get_credentials ::
  "aws_io \<Rightarrow> aws_credentials_manager \<Rightarrow>
     (exn + (string \<times> string) list option) \<times> aws_credentials_manager \<times> net_call list" where
  "get_credentials io s =
     (if should_refresh_credentials s (aws_utcnow io)
      then (case refresh_credentials io s of
              (Inl e, s', calls) \<Rightarrow>
                (Inl (HTTPException 500 ''Failed to get AWS credentials: '' (Some e)),
                 aws_clear_cache s', calls)
            | (Inr u, s', calls) \<Rightarrow> (Inr (credentials_cache s'), s', calls))
      else (Inr (credentials_cache s), s, []))"

section \<open>Responses and their normalisation (\<open>clean_response\<close> in \<open>proxyapp.py\<close>)\<close>

text \<open>
  The values that travel through the proxy: parsed JSON, the replies of the backend
  client, and the payloads of requests. \<open>PBytes\<close> and \<open>PByteArray\<close> are the two binary
  types \<open>clean_response\<close> tests for; \<open>PDict\<close> is a dictionary with string keys in
  insertion order (the only kind of value here that has a \<open>get\<close> attribute); \<open>PObject\<close>
  is any other object (a stream, a number that is not an integer), known by a name only.
\<close>

type_synonym bytes = "8 word list"

datatype pyval =
    PNone
  | PBool bool
  | PInt int
  | PStr string
  | PBytes bytes
  | PByteArray bytes
  | PList "pyval list"
  | PDict "(string \<times> pyval) list"
  | PObject string

text \<open>\<open>isinstance(value, (bytes, bytearray))\<close>, with the content when it holds.\<close>

fun binary :: "pyval \<Rightarrow> bytes option" where
  "binary (PBytes b) = Some b"
| "binary (PByteArray b) = Some b"
| "binary v = None"

text \<open>\<open>d[k] = v\<close>: an existing key keeps its place, a new key goes to the end.\<close>

fun setitem :: "(string \<times> 'v) list \<Rightarrow> string \<Rightarrow> 'v \<Rightarrow> (string \<times> 'v) list" where
  "setitem [] k v = [(k, v)]"
| "setitem ((k', v') # d) k v = (if k' = k then (k, v) # d else (k', v') # setitem d k v)"

text \<open>\<open>x.get(k)\<close>: \<open>None\<close> for a missing key, \<open>AttributeError\<close> when \<open>x\<close> is no dictionary.\<close>

definition dict_get :: "pyval \<Rightarrow> string \<Rightarrow> exn + pyval" where
  "dict_get x k =
     (case x of
        PDict d \<Rightarrow> Inr (case map_of d k of None \<Rightarrow> PNone | Some v \<Rightarrow> v)
      | _ \<Rightarrow> Inl (AttributeError ''get''))"

text \<open>
  The loop of \<open>clean_response\<close> over \<open>response.keys()\<close>. The codec behind
  \<open>value.decode('utf-8')\<close> belongs to the interpreter, not to the repository: it is the
  parameter \<open>decode\<close>, which returns the text or raises.
\<close>

fun clean_items ::
  "(bytes \<Rightarrow> exn + string) \<Rightarrow> (string \<times> pyval) list \<Rightarrow> string list \<Rightarrow>
     (string \<times> pyval) list \<Rightarrow> exn + (string \<times> pyval) list" where
  "clean_items decode response [] response_dict = Inr response_dict"
| "clean_items decode response (key # keys) response_dict =
     (case subscript response key of
        Inl e \<Rightarrow> Inl e
      | Inr value \<Rightarrow>
          (case binary value of
             Some b \<Rightarrow>
               (case decode b of
                  Inl e \<Rightarrow> Inl e
                | Inr text \<Rightarrow>
                    clean_items decode response keys (setitem response_dict key (PStr text)))
           | None \<Rightarrow> clean_items decode response keys (setitem response_dict key value)))"

definition clean_response :: "(bytes \<Rightarrow> exn + string) \<Rightarrow> pyval \<Rightarrow> exn + pyval" where
  "clean_response decode response =
     (case binary response of
        Some b \<Rightarrow>
          (case decode b of
             Inl e \<Rightarrow> Inl e
           | Inr text \<Rightarrow> Inr (PDict [(''body'', PStr text)]))
      | None \<Rightarrow>
          (case response of
             PDict items \<Rightarrow>
               (case clean_items decode items (map fst items) [] of
                  Inl e \<Rightarrow> Inl e
                | Inr response_dict \<Rightarrow> Inr (PDict response_dict))
           | _ \<Rightarrow> Inr response))"

text \<open>Applying \<open>clean_response\<close> to its own result; an exception of the first pass stays.\<close>

definition clean_twice :: "(bytes \<Rightarrow> exn + string) \<Rightarrow> pyval \<Rightarrow> exn + pyval" where
  "clean_twice decode response =
     (case clean_response decode response of
        Inl e \<Rightarrow> Inl e
      | Inr cleaned \<Rightarrow> clean_response decode cleaned)"

text \<open>\<open>hasattr(response, 'get')\<close>: of the values here, a dictionary alone has it.\<close>

fun has_get :: "pyval \<Rightarrow> bool" where
  "has_get (PDict d) = True"
| "has_get v = False"

text \<open>
  The specification's words for a mapping-like response: every binary-valued entry is
  decoded, every other entry is kept, keys and order stay; the first entry that does not
  decode raises.
\<close>

fun decode_entries ::
  "(bytes \<Rightarrow> exn + string) \<Rightarrow> (string \<times> pyval) list \<Rightarrow> exn + (string \<times> pyval) list" where
  "decode_entries decode [] = Inr []"
| "decode_entries decode ((k, v) # rest) =
     (case binary v of
        Some b \<Rightarrow>
          (case decode b of
             Inl e \<Rightarrow> Inl e
           | Inr t \<Rightarrow>
               (case decode_entries decode rest of
                  Inl e \<Rightarrow> Inl e
                | Inr out \<Rightarrow> Inr ((k, PStr t) # out)))
      | None \<Rightarrow>
          (case decode_entries decode rest of
             Inl e \<Rightarrow> Inl e
           | Inr out \<Rightarrow> Inr ((k, v) # out)))"

section \<open>Requests, backend clients and the world of one request\<close>

text \<open>
  \<open>BedrockAPI\<close>: the operation, its payload (expanded as keyword arguments), and the
  metadata as \<open>RequestMetadata.dict()\<close> gives it, when present. A \<open>ProxyRequest\<close> holds
  nothing else.
\<close>

record bedrock_api =
  operation :: string
  request_payload :: "(string \<times> pyval) list"
  metadata :: "(string \<times> pyval) list option"

text \<open>
  A client made by \<open>boto3.client\<close>: the service it talks to and what it was configured
  with.
\<close>

record client =
  client_service :: string
  client_region :: string
  client_credentials :: "(string \<times> string) list option"

text \<open>
  Everything one request meets outside the process: what the two caches meet, what the
  gateway answers to a post (an exception of the post, of \<open>raise_for_status\<close> or of
  \<open>json\<close>, or the parsed body), whether constructing a client raises, which attributes a
  client has, what calling one with keyword arguments does, and the codec. The
  constructor \<open>ProxyResponse\<close> that \<open>main.py\<close> imports from \<open>models.response_models\<close> is
  not among the sources; it is the parameter \<open>proxy_response\<close>.
\<close>

record world =
  identity :: gcp_io
  exchange :: aws_io
  gateway_post :: "(string \<times> string) list \<Rightarrow> pyval \<Rightarrow> exn + pyval"
  boto3_client :: "client \<Rightarrow> exn option"
  client_hasattr :: "client \<Rightarrow> string \<Rightarrow> bool"
  client_call :: "client \<Rightarrow> string \<Rightarrow> (string \<times> pyval) list \<Rightarrow> exn + pyval"
  decode_utf8 :: "bytes \<Rightarrow> exn + string"
  proxy_response :: "string \<Rightarrow> string \<Rightarrow> pyval \<Rightarrow> exn + pyval"

section \<open>The single-file application (\<open>proxyapp.py\<close>)\<close>

text \<open>
  Its state: the region of \<open>Config\<close> and the class attribute
  \<open>BedrockClientManager._instances\<close>.
\<close>

record proxyapp =
  AWS_REGION :: string
  instances :: "(string \<times> client) list"

definition proxyapp_get_client ::
  "world \<Rightarrow> string \<Rightarrow> proxyapp \<Rightarrow> (exn + client) \<times> proxyapp" where
  "proxyapp_get_client w op s =
     (let service = determine_service op
      in (case map_of (instances s) service of
            Some c \<Rightarrow> (Inr c, s)
          | None \<Rightarrow>
              (let c = \<lparr>client_service = service, client_region = AWS_REGION s,
                        client_credentials = None\<rparr>
               in (case boto3_client w c of
                     Some e \<Rightarrow> (Inl e, s)
                   | None \<Rightarrow> (Inr c, s\<lparr>instances := setitem (instances s) service c\<rparr>)))))"

text \<open>
  The conversion written in \<open>call_bedrock_service\<close>: an underscore before every upper
  case character, everything lowered, leading underscores stripped.
\<close>

definition snake_case :: "string \<Rightarrow> string" where
  "snake_case op =
     lstrip_underscore
       (concat (map (\<lambda>c. if isupper c then CHR ''_'' # [lower_char c] else [lower_char c]) op))"

definition prepare_gcp_request :: "bedrock_api \<Rightarrow> pyval" where
  "prepare_gcp_request request =
     PDict [(''operation'', PStr (operation request)),
            (''payload'', PDict (request_payload request)),
            (''metadata'', PDict (case metadata request of None \<Rightarrow> [] | Some m \<Rightarrow> m))]"

definition forward_to_gcp :: "world \<Rightarrow> pyval \<Rightarrow> (exn + pyval) \<times> net_call list" where
  "forward_to_gcp w payload =
     (case gateway_post w [(''Content-Type'', ''application/json'')] payload of
        Inl (HTTPError m) \<Rightarrow>
          (Inl (HTTPException 502 ''Error communicating with GCP Gateway: ''
                 (Some (HTTPError m))), [GatewayPost])
      | Inl e \<Rightarrow> (Inl e, [GatewayPost])
      | Inr body \<Rightarrow> (Inr body, [GatewayPost]))"

text \<open>The two handlers of \<open>call_bedrock_service\<close>, in their order.\<close>

definition bedrock_handlers :: "bedrock_api \<Rightarrow> exn \<Rightarrow> exn" where
  "bedrock_handlers api e =
     (case e of
        AttributeError m \<Rightarrow>
          HTTPException 400 (''Invalid Bedrock operation: '' @ operation api) None
      | _ \<Rightarrow> HTTPException 500 ''Error calling Bedrock service: '' (Some e))"

definition call_bedrock_service_try ::
  "world \<Rightarrow> bedrock_api \<Rightarrow> proxyapp \<Rightarrow> (exn + pyval) \<times> proxyapp \<times> net_call list" where
  "call_bedrock_service_try w api s =
     (case proxyapp_get_client w (operation api) s of
        (Inl e, s') \<Rightarrow> (Inl e, s', [])
      | (Inr c, s') \<Rightarrow>
          (let operation_name = snake_case (operation api)
           in if \<not> client_hasattr w c operation_name
              then (Inl (AttributeError operation_name), s', [])
              else (case client_call w c operation_name (request_payload api) of
                      Inl e \<Rightarrow> (Inl e, s', [BackendCall (client_service c) operation_name])
                    | Inr response \<Rightarrow>
                        (case clean_response (decode_utf8 w) response of
                           Inl e \<Rightarrow>
                             (Inl e, s', [BackendCall (client_service c) operation_name])
                         | Inr cleaned \<Rightarrow>
                             (Inr (PDict [(''status'', PStr ''success''),
                                          (''operation'', PStr (operation api)),
                                          (''response'', cleaned)]),
                              s', [BackendCall (client_service c) operation_name])))))"

definition call_bedrock_service ::
  "world \<Rightarrow> bedrock_api \<Rightarrow> proxyapp \<Rightarrow> (exn + pyval) \<times> proxyapp \<times> net_call list" where
  "call_bedrock_service w api s =
     (case call_bedrock_service_try w api s of
        (Inl e, s', calls) \<Rightarrow> (Inl (bedrock_handlers api e), s', calls)
      | (Inr r, s', calls) \<Rightarrow> (Inr r, s', calls))"

definition proxyapp_predict_try ::
  "world \<Rightarrow> bedrock_api \<Rightarrow> proxyapp \<Rightarrow> (exn + pyval) \<times> proxyapp \<times> net_call list" where
  "proxyapp_predict_try w request s =
     (case forward_to_gcp w (prepare_gcp_request request) of
        (Inl e, calls) \<Rightarrow> (Inl e, s, calls)
      | (Inr gateway_response, calls) \<Rightarrow>
          (case dict_get gateway_response ''status'' of
             Inl e \<Rightarrow> (Inl e, s, calls)
           | Inr status \<Rightarrow>
               if status = PStr ''approved''
               then (case call_bedrock_service w request s of
                       (r, s', calls') \<Rightarrow> (r, s', calls @ calls'))
               else (Inl (HTTPException 403 ''Request not approved by GCP Gateway'' None),
                     s, calls)))"

definition proxyapp_predict ::
  "world \<Rightarrow> bedrock_api \<Rightarrow> proxyapp \<Rightarrow> (exn + pyval) \<times> proxyapp \<times> net_call list" where
  "proxyapp_predict w request s =
     (case proxyapp_predict_try w request s of
        (Inl e, s', calls) \<Rightarrow>
          (Inl (HTTPException 500 ''Error processing request: '' (Some e)), s', calls)
      | (Inr r, s', calls) \<Rightarrow> (Inr r, s', calls))"

section \<open>The modular application (\<open>services/\<close> and \<open>main.py\<close>)\<close>

record gcp_gateway_client =
  token_manager :: gcp_token_manager
  gateway_url :: string
  timeout :: int

definition validate_request_try ::
  "world \<Rightarrow> pyval \<Rightarrow> gcp_gateway_client \<Rightarrow>
     (exn + pyval) \<times> gcp_gateway_client \<times> net_call list" where
  "validate_request_try w payload s =
     (case get_authorization_headers (identity w) (token_manager s) of
        (Inl e, tm, calls) \<Rightarrow> (Inl e, s\<lparr>token_manager := tm\<rparr>, calls)
      | (Inr headers, tm, calls) \<Rightarrow>
          (case gateway_post w headers payload of
             Inl e \<Rightarrow> (Inl e, s\<lparr>token_manager := tm\<rparr>, calls @ [GatewayPost])
           | Inr validation_response \<Rightarrow>
               (case dict_get validation_response ''status'' of
                  Inl e \<Rightarrow> (Inl e, s\<lparr>token_manager := tm\<rparr>, calls @ [GatewayPost])
                | Inr status \<Rightarrow>
                    if status \<noteq> PStr ''approved''
                    then (Inl (HTTPException 403 ''Request not approved by GCP Gateway'' None),
                          s\<lparr>token_manager := tm\<rparr>, calls @ [GatewayPost])
                    else (Inr validation_response, s\<lparr>token_manager := tm\<rparr>,
                          calls @ [GatewayPost]))))"

text \<open>
  The handlers of \<open>validate_request\<close>: \<open>httpx.HTTPError\<close> first, then every other
  exception, the \<open>HTTPException\<close> raised inside the block among them.
\<close>

definition validate_request ::
  "world \<Rightarrow> pyval \<Rightarrow> gcp_gateway_client \<Rightarrow>
     (exn + pyval) \<times> gcp_gateway_client \<times> net_call list" where
  "validate_request w payload s =
     (case validate_request_try w payload s of
        (Inl (HTTPError m), s', calls) \<Rightarrow>
          (Inl (HTTPException 500 ''GCP Gateway request failed: '' (Some (HTTPError m))),
           s', calls)
      | (Inl e, s', calls) \<Rightarrow>
          (Inl (HTTPException 500 ''Validation error: '' (Some e)), s', calls)
      | (Inr r, s', calls) \<Rightarrow> (Inr r, s', calls))"

record bedrock_client_manager =
  credentials_manager :: aws_credentials_manager
  aws_region :: string
  manager_instances :: "(string \<times> client) list"

text \<open>
  \<open>get_client\<close> of \<open>services/bedrock_client.py\<close>. The credentials it receives are the
  dictionary cached by the credentials manager; subscripting \<open>None\<close> raises \<open>TypeError\<close>.
  The three entries of the configuration are read in the order written.
\<close>

definition get_client ::
  "world \<Rightarrow> string \<Rightarrow> bedrock_client_manager \<Rightarrow>
     (exn + client) \<times> bedrock_client_manager \<times> net_call list" where
  "get_client w op s =
     (let service = determine_service op
      in (case get_credentials (exchange w) (credentials_manager s) of
            (Inl e, cm, calls) \<Rightarrow> (Inl e, s\<lparr>credentials_manager := cm\<rparr>, calls)
          | (Inr None, cm, calls) \<Rightarrow>
              (Inl (TypeError ''NoneType object is not subscriptable''),
               s\<lparr>credentials_manager := cm\<rparr>, calls)
          | (Inr (Some creds), cm, calls) \<Rightarrow>
              (case subscript creds ''AccessKeyId'' of
                 Inl e \<Rightarrow> (Inl e, s\<lparr>credentials_manager := cm\<rparr>, calls)
               | Inr access_key \<Rightarrow>
                   (case subscript creds ''SecretAccessKey'' of
                      Inl e \<Rightarrow> (Inl e, s\<lparr>credentials_manager := cm\<rparr>, calls)
                    | Inr secret_key \<Rightarrow>
                        (case subscript creds ''SessionToken'' of
                           Inl e \<Rightarrow> (Inl e, s\<lparr>credentials_manager := cm\<rparr>, calls)
                         | Inr session_token \<Rightarrow>
                             (let c = \<lparr>client_service = service,
                                       client_region = aws_region s,
                                       client_credentials =
                                         Some [(''aws_access_key_id'', access_key),
                                               (''aws_secret_access_key'', secret_key),
                                               (''aws_session_token'', session_token)]\<rparr>
                              in (case boto3_client w c of
                                    Some e \<Rightarrow> (Inl e, s\<lparr>credentials_manager := cm\<rparr>, calls)
                                  | None \<Rightarrow>
                                      (Inr c,
                                       s\<lparr>credentials_manager := cm,
                                         manager_instances :=
                                           setitem (manager_instances s) service c\<rparr>,
                                       calls))))))))"

record main_app =
  bedrock_client_manager :: bedrock_client_manager
  gcp_gateway :: gcp_gateway_client

text \<open>
  Modelled from the spec: \<open>models/request_models.py\<close> is not among the sources, so
  \<open>request.dict()\<close> follows the inbound body of the specification,
  \<open>{bedrock_api: {operation, request_payload, metadata?}}\<close>.
\<close>

definition request_dict :: "bedrock_api \<Rightarrow> pyval" where
  "request_dict request =
     PDict [(''bedrock_api'',
             PDict [(''operation'', PStr (operation request)),
                    (''request_payload'', PDict (request_payload request)),
                    (''metadata'',
                     (case metadata request of None \<Rightarrow> PNone | Some m \<Rightarrow> PDict m))])]"

definition main_predict_try ::
  "world \<Rightarrow> bedrock_api \<Rightarrow> main_app \<Rightarrow> (exn + pyval) \<times> main_app \<times> net_call list" where
  "main_predict_try w request s =
     (case validate_request w (request_dict request) (gcp_gateway s) of
        (Inl e, g, calls) \<Rightarrow> (Inl e, s\<lparr>gcp_gateway := g\<rparr>, calls)
      | (Inr gateway_response, g, calls) \<Rightarrow>
          (case dict_get gateway_response ''status'' of
             Inl e \<Rightarrow> (Inl e, s\<lparr>gcp_gateway := g\<rparr>, calls)
           | Inr status \<Rightarrow>
               if status \<noteq> PStr ''approved''
               then (Inl (HTTPException 403 ''Request not approved by GCP Gateway'' None),
                     s\<lparr>gcp_gateway := g\<rparr>, calls)
               else (case get_client w (operation request) (bedrock_client_manager s) of
                       (Inl e, m, calls') \<Rightarrow>
                         (Inl e, s\<lparr>gcp_gateway := g, bedrock_client_manager := m\<rparr>,
                          calls @ calls')
                     | (Inr c, m, calls') \<Rightarrow>
                         (let s' = s\<lparr>gcp_gateway := g, bedrock_client_manager := m\<rparr>;
                              name = lower (operation request)
                          in if \<not> client_hasattr w c name
                             then (Inl (AttributeError name), s', calls @ calls')
                             else (case client_call w c name (request_payload request) of
                                     Inl e \<Rightarrow>
                                       (Inl e, s',
                                        calls @ calls' @ [BackendCall (client_service c) name])
                                   | Inr response \<Rightarrow>
                                       (proxy_response w ''success'' (operation request)
                                          response,
                                        s',
                                        calls @ calls'
                                        @ [BackendCall (client_service c) name]))))))"

definition main_predict ::
  "world \<Rightarrow> bedrock_api \<Rightarrow> main_app \<Rightarrow> (exn + pyval) \<times> main_app \<times> net_call list" where
  "main_predict w request s =
     (case main_predict_try w request s of
        (Inl e, s', calls) \<Rightarrow>
          (Inl (HTTPException 500 ''Error processing request: '' (Some e)), s', calls)
      | (Inr r, s', calls) \<Rightarrow> (Inr r, s', calls))"

section \<open>Repeated calls, operations and the pairing of cache fields\<close>

text \<open>
  A sequence of calls of \<open>get_token\<close> (of \<open>get_credentials\<close>), each with what it meets
  outside the process: the results in order, the final manager, and all calls made.
\<close>

fun get_token_calls ::
  "gcp_io list \<Rightarrow> gcp_token_manager \<Rightarrow>
     (exn + string option) list \<times> gcp_token_manager \<times> net_call list" where
  "get_token_calls [] s = ([], s, [])"
| "get_token_calls (io # ios) s =
     (case get_token io s of
        (r, s', calls) \<Rightarrow>
          (case get_token_calls ios s' of
             (rs, s'', calls') \<Rightarrow> (r # rs, s'', calls @ calls')))"

fun get_credentials_calls ::
  "aws_io list \<Rightarrow> aws_credentials_manager \<Rightarrow>
     (exn + (string \<times> string) list option) list \<times> aws_credentials_manager \<times> net_call list" where
  "get_credentials_calls [] s = ([], s, [])"
| "get_credentials_calls (io # ios) s =
     (case get_credentials io s of
        (r, s', calls) \<Rightarrow>
          (case get_credentials_calls ios s' of
             (rs, s'', calls') \<Rightarrow> (r # rs, s'', calls @ calls')))"

text \<open>The operations that change a cache, and a run of them.\<close>

datatype gcp_op = GetToken gcp_io | GcpClearCache

fun gcp_step :: "gcp_op \<Rightarrow> gcp_token_manager \<Rightarrow> gcp_token_manager" where
  "gcp_step (GetToken io) s = fst (snd (get_token io s))"
| "gcp_step GcpClearCache s = gcp_clear_cache s"

datatype aws_op = GetCredentials aws_io | RefreshCredentials aws_io | AwsClearCache

fun aws_step :: "aws_op \<Rightarrow> aws_credentials_manager \<Rightarrow> aws_credentials_manager" where
  "aws_step (GetCredentials io) s = fst (snd (get_credentials io s))"
| "aws_step (RefreshCredentials io) s = fst (snd (refresh_credentials io s))"
| "aws_step AwsClearCache s = aws_clear_cache s"

text \<open>
  The fields of a cache are set together: the token is set exactly when its expiry is;
  the credential dictionary is set exactly when its expiry is, and it then holds the three
  entries of the triple, in this order.
\<close>

definition gcp_paired :: "gcp_token_manager \<Rightarrow> bool" where
  "gcp_paired s = ((token_cache s = None) = (token_expiry s = None))"

definition aws_paired :: "aws_credentials_manager \<Rightarrow> bool" where
  "aws_paired s =
     (case credentials_cache s of
        None \<Rightarrow> credentials_expiry s = None
      | Some d \<Rightarrow>
          credentials_expiry s \<noteq> None
          \<and> map fst d = [''aws_access_key_id'', ''aws_secret_access_key'', ''aws_session_token''])"

text \<open>
  The same pairing with non-empty strings, and the upstream behaviour it rests on: a
  refresh that succeeds stores a non-empty token, and the reply of the exchange holds
  non-empty strings.
\<close>

definition upstream_token_nonempty :: "gcp_op \<Rightarrow> bool" where
  "upstream_token_nonempty op =
     (case op of
        GetToken io \<Rightarrow> (case gcp_refresh io of Inl e \<Rightarrow> True | Inr tok \<Rightarrow> tok \<noteq> [])
      | GcpClearCache \<Rightarrow> True)"

definition reply_nonempty :: "aws_io \<Rightarrow> bool" where
  "reply_nonempty io =
     (case aws_assume_role io of
        Inl e \<Rightarrow> True
      | Inr response \<Rightarrow> list_all (\<lambda>x. snd x \<noteq> []) (Credentials response))"

definition upstream_triple_nonempty :: "aws_op \<Rightarrow> bool" where
  "upstream_triple_nonempty op =
     (case op of
        GetCredentials io \<Rightarrow> reply_nonempty io
      | RefreshCredentials io \<Rightarrow> reply_nonempty io
      | AwsClearCache \<Rightarrow> True)"

definition gcp_paired_nonempty :: "gcp_token_manager \<Rightarrow> bool" where
  "gcp_paired_nonempty s =
     (case token_cache s of
        None \<Rightarrow> token_expiry s = None
      | Some v \<Rightarrow> v \<noteq> [] \<and> token_expiry s \<noteq> None)"

definition aws_paired_nonempty :: "aws_credentials_manager \<Rightarrow> bool" where
  "aws_paired_nonempty s =
     (case credentials_cache s of
        None \<Rightarrow> credentials_expiry s = None
      | Some d \<Rightarrow>
          credentials_expiry s \<noteq> None
          \<and> map fst d = [''aws_access_key_id'', ''aws_secret_access_key'', ''aws_session_token'']
          \<and> list_all (\<lambda>x. snd x \<noteq> []) d)"

section \<open>Concrete managers and upstream behaviours\<close>

text \<open>
  Times are microseconds: the first call happens at second 1, an hour's token obtained at
  second 2 expires at second 3602 and stops being valid at second 3302.
\<close>

definition example_gcp :: gcp_token_manager where
  "example_gcp =
     \<lparr>gcp_workload_identity_pool = ''pool'', gcp_provider_id = ''provider'',
      token_cache = None, token_expiry = None, credentials = None,
      gcp_refresh_buffer = 300\<rparr>"

definition example_gcp_ok :: gcp_io where
  "example_gcp_ok =
     \<lparr>gcp_now = 1000000, gcp_construct = None, gcp_refresh = Inr ''tok'',
      gcp_now_after = 2000000\<rparr>"

definition example_gcp_fail :: gcp_io where
  "example_gcp_fail =
     \<lparr>gcp_now = 1000000, gcp_construct = None, gcp_refresh = Inl (LibraryError ''refresh''),
      gcp_now_after = 2000000\<rparr>"

definition example_aws :: aws_credentials_manager where
  "example_aws =
     \<lparr>aws_role_arn = ''role'', aws_workload_identity_pool = ''pool'',
      aws_provider_id = ''provider'', region = ''us-east-1'',
      credentials_cache = None, credentials_expiry = None, google_credentials = None,
      session_duration = 3600, aws_refresh_buffer = 300\<rparr>"

definition example_sts :: sts_response where
  "example_sts =
     \<lparr>Credentials = [(''AccessKeyId'', ''AKIA''), (''SecretAccessKey'', ''secret''),
                     (''SessionToken'', ''session'')],
      Expiration = Some 3602500000\<rparr>"

definition example_aws_ok :: aws_io where
  "example_aws_ok =
     \<lparr>aws_utcnow = 1000000, aws_construct = None, aws_refresh = Inr ''tok'',
      aws_assume_role = Inr example_sts\<rparr>"

definition example_aws_partial :: aws_io where
  "example_aws_partial =
     \<lparr>aws_utcnow = 1000000, aws_construct = None, aws_refresh = Inr ''tok'',
      aws_assume_role = Inr (example_sts\<lparr>Expiration := None\<rparr>)\<rparr>"

definition example_gcp_cached :: gcp_token_manager where
  "example_gcp_cached =
     example_gcp\<lparr>token_cache := Some ''old'', token_expiry := Some 3602000000,
                 credentials := Some \<lparr>audience = ''provider'',
                   subject_token_type = ''urn:ietf:params:oauth:token-type:jwt'',
                   token_url = ''pool'',
                   scope = Some [''https://www.googleapis.com/auth/cloud-platform''],
                   token = Some ''old''\<rparr>\<rparr>"

definition example_aws_cached :: aws_credentials_manager where
  "example_aws_cached =
     example_aws\<lparr>credentials_cache := Some [(''aws_access_key_id'', ''AKIA''),
                   (''aws_secret_access_key'', ''secret''), (''aws_session_token'', ''session'')],
                 credentials_expiry := Some 3602000000,
                 google_credentials := Some \<lparr>audience = ''provider'',
                   subject_token_type = ''urn:ietf:params:oauth:token-type:jwt'',
                   token_url = ''pool'', scope = None, token = Some ''old''\<rparr>\<rparr>"

section \<open>Concrete requests and worlds\<close>

text \<open>
  A codec for the examples: on a payload of 7-bit bytes the UTF-8 codec returns the
  characters with these codes; the examples give it no other payload that decodes, and a
  byte 255, which no UTF-8 text holds, raises.
\<close>

definition decode_ascii :: "bytes \<Rightarrow> exn + string" where
  "decode_ascii b =
     (if list_all (\<lambda>x. unat x < 128) b then Inr (map (\<lambda>x. char_of (unat x)) b)
      else Inl UnicodeDecodeError)"

text \<open>A binary reply and a mapping reply with one binary entry.\<close>

definition binary_reply :: pyval where
  "binary_reply = PBytes [104, 105]"

definition mapping_reply :: pyval where
  "mapping_reply =
     PDict [(''body'', PByteArray [111, 107]), (''contentType'', PStr ''text/plain''),
            (''tokens'', PInt 2)]"

text \<open>
  A world whose gateway answers every post with the verdict \<open>{"status": "denied"}\<close>, and
  one whose gateway approves and whose backend clients have the single method
  \<open>invoke_model\<close>. In both, the two caches meet upstreams that succeed.
\<close>

definition denied_world :: world where
  "denied_world =
     \<lparr>identity = example_gcp_ok, exchange = example_aws_ok,
      gateway_post = (\<lambda>headers payload. Inr (PDict [(''status'', PStr ''denied'')])),
      boto3_client = (\<lambda>c. None),
      client_hasattr = (\<lambda>c name. name = ''invoke_model''),
      client_call = (\<lambda>c name kwargs. Inr (PDict [(''body'', PBytes [104, 105])])),
      decode_utf8 = decode_ascii,
      proxy_response = (\<lambda>status op response.
        Inr (PDict [(''status'', PStr status), (''operation'', PStr op),
                    (''response'', response)]))\<rparr>"

definition approved_world :: world where
  "approved_world =
     denied_world\<lparr>gateway_post :=
       (\<lambda>headers payload. Inr (PDict [(''status'', PStr ''approved'')]))\<rparr>"

definition invalid_op_request :: bedrock_api where
  "invalid_op_request =
     \<lparr>operation = ''InvalidOp'', request_payload = [], metadata = None\<rparr>"

definition invoke_model_request :: bedrock_api where
  "invoke_model_request =
     \<lparr>operation = ''InvokeModel'', request_payload = [(''modelId'', PStr ''m'')],
      metadata = None\<rparr>"

definition example_proxyapp :: proxyapp where
  "example_proxyapp = \<lparr>AWS_REGION = ''us-east-1'', instances = []\<rparr>"

definition example_gateway :: gcp_gateway_client where
  "example_gateway =
     \<lparr>token_manager = example_gcp, gateway_url = ''https://gateway'', timeout = 30\<rparr>"

definition example_manager :: bedrock_client_manager where
  "example_manager =
     \<lparr>credentials_manager = example_aws, aws_region = ''us-east-1'', manager_instances = []\<rparr>"

definition example_main :: main_app where
  "example_main = \<lparr>bedrock_client_manager = example_manager, gcp_gateway = example_gateway\<rparr>"

section \<open>Properties of service resolution\<close>

lemma lower_take: "lower (take n s) = take n (lower s)"
  by (simp add: lower_def take_map)

lemma length_lower [simp]: "length (lower s) = length s"
  by (simp add: lower_def)

lemma startswith_ci_prefix:
  assumes "lower p = p"
  shows "startswith (lower s) p = ci_prefix p s"
proof (cases "length p \<le> length s")
  case True
  then show ?thesis
    using assms by (simp add: startswith_def ci_prefix_def lower_take)
next
  case False
  then have "length (take (length p) (lower s)) < length p"
    by simp
  then have "take (length p) (lower s) \<noteq> p"
    by (metis less_irrefl)
  with False show ?thesis
    by (simp add: startswith_def ci_prefix_def)
qed

lemma lower_invoke: "lower ''invoke'' = ''invoke''"
  by (simp add: lower_def lower_char_def isupper_def)

lemma lower_stream: "lower ''stream'' = ''stream''"
  by (simp add: lower_def lower_char_def isupper_def)

lemma lower_agent: "lower ''agent'' = ''agent''"
  by (simp add: lower_def lower_char_def isupper_def)

text \<open>
  Claim C5. For every operation name the service chosen by \<open>_determine_service\<close> is the
  one the ordered rule table of the specification gives under case-insensitive prefix
  matching with the first matching rule winning: prefixes \<open>invoke\<close> and \<open>stream\<close> give the
  runtime service, prefix \<open>agent\<close> the agent service, anything else the default service.
  In particular \<open>InvokeAgentSomething\<close> resolves to the runtime service and not to the
  agent service.
\<close>

theorem determine_service_first_match:
  "determine_service op = BEDROCK_SERVICES (spec_resolveService op)
   \<and> determine_service ''InvokeAgentSomething'' = BEDROCK_SERVICES Runtime
   \<and> determine_service ''InvokeAgentSomething'' \<noteq> BEDROCK_SERVICES Agent"
proof -
  have "determine_service op = BEDROCK_SERVICES (spec_resolveService op)"
    by (simp add: determine_service_def spec_resolveService_def spec_rules_def Let_def
        startswith_ci_prefix lower_invoke lower_stream lower_agent)
  moreover have "determine_service ''InvokeAgentSomething'' = BEDROCK_SERVICES Runtime"
    by code_simp
  ultimately show ?thesis
    by simp
qed

section \<open>Properties of the two caches\<close>

lemmas example_defs =
  example_gcp_def example_gcp_ok_def example_gcp_fail_def example_aws_def example_sts_def
  example_aws_ok_def example_aws_partial_def example_gcp_cached_def example_aws_cached_def

lemmas cache_defs =
  get_token_def get_token_try_def is_token_valid_def gcp_clear_cache_def
  get_credentials_def refresh_credentials_def refresh_credentials_try_def
  should_refresh_credentials_def aws_clear_cache_def cache_entry_def subscript_def
  falsy_def timedelta_def strip_microseconds_def Let_def

lemma is_token_valid_iff:
  "is_token_valid s now \<longleftrightarrow>
     (\<exists>v e. token_cache s = Some v \<and> v \<noteq> [] \<and> token_expiry s = Some e
            \<and> now < e - timedelta (gcp_refresh_buffer s))"
  by (auto simp: is_token_valid_def falsy_def split: option.splits)

lemma should_refresh_iff:
  "(\<not> should_refresh_credentials s now) \<longleftrightarrow>
     (\<exists>c e. credentials_cache s = Some c \<and> c \<noteq> [] \<and> credentials_expiry s = Some e
            \<and> now < e - timedelta (aws_refresh_buffer s))"
  by (auto simp: should_refresh_credentials_def falsy_def split: option.splits)

lemma get_token_try_Inr:
  assumes "get_token_try io s = (Inr r, s', calls)"
  shows "\<exists>tok h. gcp_refresh io = Inr tok \<and> r = Some tok \<and> calls = [IdentityRefresh]
           \<and> s' = s\<lparr>credentials := Some h, token_cache := Some tok,
                     token_expiry := Some (gcp_now_after io + timedelta 3600)\<rparr>"
  using assms
  by (auto simp: get_token_try_def Let_def split: option.splits sum.splits)

lemma get_token_try_Inl:
  assumes "get_token_try io s = (Inl e, s', calls)"
  shows "gcp_clear_cache s' = gcp_clear_cache s"
  using assms
  by (auto simp: get_token_try_def Let_def gcp_clear_cache_def split: option.splits sum.splits)

lemma get_token_stale_cases:
  assumes "\<not> is_token_valid s (gcp_now io)"
  shows "(\<exists>e calls. get_token io s =
            (Inl (HTTPException 500 ''Failed to get Google Cloud token: '' (Some e)),
             gcp_clear_cache s, calls))
       \<or> (\<exists>tok h. gcp_refresh io = Inr tok
            \<and> get_token io s =
               (Inr (Some tok),
                s\<lparr>credentials := Some h, token_cache := Some tok,
                  token_expiry := Some (gcp_now_after io + timedelta 3600)\<rparr>,
                [IdentityRefresh]))"
proof (cases "get_token_try io s")
  case (fields r s' calls)
  show ?thesis
  proof (cases r)
    case (Inl e)
    with fields assms get_token_try_Inl[of io s e s' calls] show ?thesis
      by (simp add: get_token_def)
  next
    case (Inr t)
    with fields assms get_token_try_Inr[of io s t s' calls] show ?thesis
      by (auto simp: get_token_def)
  qed
qed

lemma refresh_try_Inr:
  assumes "refresh_credentials_try io s = (Inr u, s', calls)"
  shows "\<exists>h response entry expiration.
           aws_assume_role io = Inr response \<and> cache_entry response = Inr entry
           \<and> Expiration response = Some expiration
           \<and> calls = [IdentityRefresh, AssumeRoleWithWebIdentity]
           \<and> s' = s\<lparr>google_credentials := Some h, credentials_cache := Some entry,
                     credentials_expiry := Some (strip_microseconds expiration)\<rparr>"
  using assms
  by (auto simp: refresh_credentials_try_def Let_def split: option.splits sum.splits)

lemma refresh_try_Inl:
  assumes "refresh_credentials_try io s = (Inl e, s', calls)"
  shows "aws_clear_cache s' = aws_clear_cache s"
  using assms
  by (auto simp: refresh_credentials_try_def Let_def aws_clear_cache_def
      split: option.splits sum.splits)

lemma cache_entry_keys:
  "cache_entry response = Inr entry \<Longrightarrow>
     map fst entry = [''aws_access_key_id'', ''aws_secret_access_key'', ''aws_session_token'']"
  by (auto simp: cache_entry_def split: sum.splits)

lemma get_credentials_stale_cases:
  assumes "should_refresh_credentials s (aws_utcnow io)"
  shows "(\<exists>e calls. get_credentials io s =
            (Inl (HTTPException 500 ''Failed to get AWS credentials: ''
                   (Some (Exception ''Failed to refresh AWS credentials: '' (Some e)))),
             aws_clear_cache s, calls))
       \<or> (\<exists>h response entry expiration.
            aws_assume_role io = Inr response \<and> cache_entry response = Inr entry
            \<and> Expiration response = Some expiration
            \<and> get_credentials io s =
               (Inr (Some entry),
                s\<lparr>google_credentials := Some h, credentials_cache := Some entry,
                  credentials_expiry := Some (strip_microseconds expiration)\<rparr>,
                [IdentityRefresh, AssumeRoleWithWebIdentity]))"
proof (cases "refresh_credentials_try io s")
  case (fields r s' calls)
  show ?thesis
  proof (cases r)
    case (Inl e)
    with fields assms refresh_try_Inl[of io s e s' calls] show ?thesis
      by (simp add: get_credentials_def refresh_credentials_def aws_clear_cache_def)
  next
    case (Inr u)
    with fields assms refresh_try_Inr[of io s u s' calls] show ?thesis
      by (auto simp: get_credentials_def refresh_credentials_def)
  qed
qed

lemma get_token_stale_calls:
  assumes "\<not> is_token_valid s (gcp_now io)" and "credentials s = Some h"
  shows "snd (snd (get_token io s)) = [IdentityRefresh]"
  using assms
  by (auto simp: get_token_def get_token_try_def Let_def split: sum.splits)

lemma get_credentials_stale_calls:
  assumes "should_refresh_credentials s (aws_utcnow io)" and "google_credentials s = Some h"
  shows "IdentityRefresh \<in> set (snd (snd (get_credentials io s)))"
  using assms
  by (auto simp: get_credentials_def refresh_credentials_def refresh_credentials_try_def Let_def
      split: sum.splits option.splits)

lemma gcp_fresh_window:
  assumes stale: "\<not> is_token_valid g (gcp_now io)"
    and ok: "get_token io g = (Inr (Some tok), g', calls)"
    and tok: "tok \<noteq> []"
  shows "token_expiry g' = Some (gcp_now_after io + timedelta 3600)"
    and "is_token_valid g' t \<longleftrightarrow>
           t < gcp_now_after io + timedelta 3600 - timedelta (gcp_refresh_buffer g)"
    and "\<not> is_token_valid g' (gcp_now (io' :: gcp_io)) \<Longrightarrow> snd (snd (get_token io' g')) = [IdentityRefresh]"
proof -
  from get_token_stale_cases[OF stale] ok obtain h where
    g': "g' = g\<lparr>credentials := Some h, token_cache := Some tok,
                token_expiry := Some (gcp_now_after io + timedelta 3600)\<rparr>"
    by auto
  show "token_expiry g' = Some (gcp_now_after io + timedelta 3600)"
    by (simp add: g')
  show "is_token_valid g' t \<longleftrightarrow>
           t < gcp_now_after io + timedelta 3600 - timedelta (gcp_refresh_buffer g)"
    using tok by (simp add: g' is_token_valid_iff)
  have "credentials g' = Some h"
    by (simp add: g')
  then show "\<not> is_token_valid g' (gcp_now (io' :: gcp_io)) \<Longrightarrow>
      snd (snd (get_token io' g')) = [IdentityRefresh]"
    by (rule get_token_stale_calls[rotated])
qed

lemma aws_fresh_window:
  assumes stale: "should_refresh_credentials a (aws_utcnow io)"
    and ok: "get_credentials io a = (Inr c, a', calls)"
  shows "\<exists>response expiration.
           aws_assume_role io = Inr response \<and> Expiration response = Some expiration
           \<and> credentials_expiry a' = Some (strip_microseconds expiration)
           \<and> (\<forall>t. (\<not> should_refresh_credentials a' t) \<longleftrightarrow>
                   t < strip_microseconds expiration - timedelta (aws_refresh_buffer a))"
    and "should_refresh_credentials a' (aws_utcnow (io' :: aws_io)) \<Longrightarrow>
           IdentityRefresh \<in> set (snd (snd (get_credentials io' a')))"
proof -
  from get_credentials_stale_cases[OF stale] ok obtain h response entry expiration where
    r: "aws_assume_role io = Inr response" "cache_entry response = Inr entry"
       "Expiration response = Some expiration"
    and a': "a' = a\<lparr>google_credentials := Some h, credentials_cache := Some entry,
                    credentials_expiry := Some (strip_microseconds expiration)\<rparr>"
    by auto
  from r(2) have "entry \<noteq> []"
    using cache_entry_keys by fastforce
  then have "\<forall>t. (\<not> should_refresh_credentials a' t) \<longleftrightarrow>
                   t < strip_microseconds expiration - timedelta (aws_refresh_buffer a)"
    by (simp add: a' should_refresh_iff)
  with r show "\<exists>response expiration.
           aws_assume_role io = Inr response \<and> Expiration response = Some expiration
           \<and> credentials_expiry a' = Some (strip_microseconds expiration)
           \<and> (\<forall>t. (\<not> should_refresh_credentials a' t) \<longleftrightarrow>
                   t < strip_microseconds expiration - timedelta (aws_refresh_buffer a))"
    by (simp add: a')
  have "google_credentials a' = Some h"
    by (simp add: a')
  then show "should_refresh_credentials a' (aws_utcnow (io' :: aws_io)) \<Longrightarrow>
           IdentityRefresh \<in> set (snd (snd (get_credentials io' a')))"
    by (rule get_credentials_stale_calls[rotated])
qed

text \<open>
  Claim C1. For both caches the validity check is true exactly when a value is cached (a
  non-empty token; a non-empty credential dictionary), the expiry is set and the clock is
  strictly before the expiry minus the refresh buffer. After a successful refresh the
  identity token (installed with a lifetime of 3600 seconds) is valid at exactly the
  instants strictly before its expiry minus the buffer, the credential set at exactly the
  instants strictly before the expiry its reply carried (cut to whole seconds) minus the
  buffer, and a call made when the check is false performs the identity refresh again.
\<close>

theorem cache_validity:
  "(is_token_valid g now \<longleftrightarrow>
      (\<exists>v e. token_cache g = Some v \<and> v \<noteq> [] \<and> token_expiry g = Some e
             \<and> now < e - timedelta (gcp_refresh_buffer g)))
   \<and> ((\<not> should_refresh_credentials a now) \<longleftrightarrow>
      (\<exists>c e. credentials_cache a = Some c \<and> c \<noteq> [] \<and> credentials_expiry a = Some e
             \<and> now < e - timedelta (aws_refresh_buffer a)))
   \<and> (\<not> is_token_valid g (gcp_now io) \<and> get_token io g = (Inr (Some tok), g', calls)
        \<and> tok \<noteq> [] \<longrightarrow>
      token_expiry g' = Some (gcp_now_after io + timedelta 3600)
      \<and> (\<forall>t. is_token_valid g' t \<longleftrightarrow>
              t < gcp_now_after io + timedelta 3600 - timedelta (gcp_refresh_buffer g))
      \<and> (\<forall>io'. \<not> is_token_valid g' (gcp_now io') \<longrightarrow>
              snd (snd (get_token io' g')) = [IdentityRefresh]))
   \<and> (should_refresh_credentials a (aws_utcnow aio) \<and> get_credentials aio a = (Inr c, a', acalls)
        \<longrightarrow>
      (\<exists>response expiration.
          aws_assume_role aio = Inr response \<and> Expiration response = Some expiration
          \<and> credentials_expiry a' = Some (strip_microseconds expiration)
          \<and> (\<forall>t. (\<not> should_refresh_credentials a' t) \<longleftrightarrow>
                  t < strip_microseconds expiration - timedelta (aws_refresh_buffer a)))
      \<and> (\<forall>aio'. should_refresh_credentials a' (aws_utcnow aio') \<longrightarrow>
              IdentityRefresh \<in> set (snd (snd (get_credentials aio' a')))))"
proof (intro conjI impI allI)
  show "is_token_valid g now \<longleftrightarrow>
      (\<exists>v e. token_cache g = Some v \<and> v \<noteq> [] \<and> token_expiry g = Some e
             \<and> now < e - timedelta (gcp_refresh_buffer g))"
    by (rule is_token_valid_iff)
  show "(\<not> should_refresh_credentials a now) \<longleftrightarrow>
      (\<exists>c e. credentials_cache a = Some c \<and> c \<noteq> [] \<and> credentials_expiry a = Some e
             \<and> now < e - timedelta (aws_refresh_buffer a))"
    by (rule should_refresh_iff)
next
  assume h: "\<not> is_token_valid g (gcp_now io) \<and> get_token io g = (Inr (Some tok), g', calls)
        \<and> tok \<noteq> []"
  then show "token_expiry g' = Some (gcp_now_after io + timedelta 3600)"
    using gcp_fresh_window(1) by blast
next
  fix t
  assume h: "\<not> is_token_valid g (gcp_now io) \<and> get_token io g = (Inr (Some tok), g', calls)
        \<and> tok \<noteq> []"
  then show "is_token_valid g' t \<longleftrightarrow>
              t < gcp_now_after io + timedelta 3600 - timedelta (gcp_refresh_buffer g)"
    using gcp_fresh_window(2) by blast
next
  fix io' :: gcp_io
  assume h: "\<not> is_token_valid g (gcp_now io) \<and> get_token io g = (Inr (Some tok), g', calls)
        \<and> tok \<noteq> []"
    and "\<not> is_token_valid g' (gcp_now io')"
  then show "snd (snd (get_token io' g')) = [IdentityRefresh]"
    using gcp_fresh_window(3) by blast
next
  assume "should_refresh_credentials a (aws_utcnow aio)
      \<and> get_credentials aio a = (Inr c, a', acalls)"
  then show "\<exists>response expiration.
          aws_assume_role aio = Inr response \<and> Expiration response = Some expiration
          \<and> credentials_expiry a' = Some (strip_microseconds expiration)
          \<and> (\<forall>t. (\<not> should_refresh_credentials a' t) \<longleftrightarrow>
                  t < strip_microseconds expiration - timedelta (aws_refresh_buffer a))"
    using aws_fresh_window(1) by blast
next
  fix aio' :: aws_io
  assume "should_refresh_credentials a (aws_utcnow aio)
      \<and> get_credentials aio a = (Inr c, a', acalls)"
    and "should_refresh_credentials a' (aws_utcnow aio')"
  then show "IdentityRefresh \<in> set (snd (snd (get_credentials aio' a')))"
    using aws_fresh_window(2) by blast
qed

theorem cache_validity_witness:
  "\<not> is_token_valid example_gcp (gcp_now example_gcp_ok)
   \<and> fst (get_token example_gcp_ok example_gcp) = Inr (Some ''tok'')
   \<and> is_token_valid (fst (snd (get_token example_gcp_ok example_gcp))) 3301999999
   \<and> \<not> is_token_valid (fst (snd (get_token example_gcp_ok example_gcp))) 3302000000
   \<and> snd (snd (get_token (example_gcp_ok\<lparr>gcp_now := 3302000000\<rparr>)
                  (fst (snd (get_token example_gcp_ok example_gcp))))) = [IdentityRefresh]
   \<and> should_refresh_credentials example_aws (aws_utcnow example_aws_ok)
   \<and> credentials_expiry (fst (snd (get_credentials example_aws_ok example_aws)))
       = Some 3602000000
   \<and> \<not> should_refresh_credentials (fst (snd (get_credentials example_aws_ok example_aws)))
         3301999999
   \<and> should_refresh_credentials (fst (snd (get_credentials example_aws_ok example_aws)))
         3302000000"
proof -
  define g1 where "g1 = fst (snd (get_token example_gcp_ok example_gcp))"
  define a1 where "a1 = fst (snd (get_credentials example_aws_ok example_aws))"
  have stale: "\<not> is_token_valid example_gcp (gcp_now example_gcp_ok)"
    by (simp add: example_defs cache_defs)
  have ok: "get_token example_gcp_ok example_gcp = (Inr (Some ''tok''), g1, [IdentityRefresh])"
    unfolding g1_def by (simp add: example_defs cache_defs)
  have astale: "should_refresh_credentials example_aws (aws_utcnow example_aws_ok)"
    by (simp add: example_defs cache_defs)
  have aok: "get_credentials example_aws_ok example_aws =
      (Inr (credentials_cache a1), a1, [IdentityRefresh, AssumeRoleWithWebIdentity])"
    unfolding a1_def by (simp add: example_defs cache_defs)
  have exp: "aws_assume_role example_aws_ok = Inr example_sts"
    "Expiration example_sts = Some 3602500000"
    by (simp_all add: example_defs)
  note T = cache_validity[where g = example_gcp and io = example_gcp_ok and tok = "''tok''"
      and g' = g1 and calls = "[IdentityRefresh]" and a = example_aws and aio = example_aws_ok
      and c = "credentials_cache a1" and a' = a1
      and acalls = "[IdentityRefresh, AssumeRoleWithWebIdentity]"]
  from T stale ok have
    w: "\<forall>t. is_token_valid g1 t \<longleftrightarrow>
          t < gcp_now_after example_gcp_ok + timedelta 3600
              - timedelta (gcp_refresh_buffer example_gcp)"
    and n: "\<forall>io'. \<not> is_token_valid g1 (gcp_now io') \<longrightarrow>
          snd (snd (get_token io' g1)) = [IdentityRefresh]"
    by simp_all
  from T astale aok exp have
    aw: "credentials_expiry a1 = Some (strip_microseconds 3602500000)"
    and ax: "\<forall>t. (\<not> should_refresh_credentials a1 t) \<longleftrightarrow>
          t < strip_microseconds 3602500000 - timedelta (aws_refresh_buffer example_aws)"
    by auto
  have v1: "is_token_valid g1 3301999999" and v2: "\<not> is_token_valid g1 3302000000"
    by (simp_all add: w example_defs timedelta_def)
  from n v2 have v3:
    "snd (snd (get_token (example_gcp_ok\<lparr>gcp_now := 3302000000\<rparr>) g1)) = [IdentityRefresh]"
    by simp
  have a2: "\<not> should_refresh_credentials a1 3301999999"
    and a3: "should_refresh_credentials a1 3302000000"
    using ax[rule_format, of 3301999999] ax[rule_format, of 3302000000]
    by (simp_all add: example_defs timedelta_def strip_microseconds_def)
  from aw have a4: "credentials_expiry a1 = Some 3602000000"
    by (simp add: strip_microseconds_def)
  from ok have f: "fst (get_token example_gcp_ok example_gcp) = Inr (Some ''tok'')"
    by simp
  from stale f v1 v2 v3 astale a4 a2 a3 show ?thesis
    unfolding g1_def a1_def by simp
qed

lemma get_token_Inl:
  assumes "get_token io g = (Inl x, g', calls)"
  shows "(\<exists>e. x = HTTPException 500 ''Failed to get Google Cloud token: '' (Some e))
         \<and> g' = gcp_clear_cache g"
proof (cases "is_token_valid g (gcp_now io)")
  case True
  with assms show ?thesis
    by (simp add: get_token_def)
next
  case False
  from get_token_stale_cases[OF False] assms show ?thesis
    by auto
qed

lemma get_token_try_raises:
  assumes "\<not> is_token_valid g (gcp_now io)" and "fst (get_token_try io g) = Inl e"
  shows "fst (get_token io g) = Inl (HTTPException 500 ''Failed to get Google Cloud token: '' (Some e))"
  using assms by (cases "get_token_try io g") (simp add: get_token_def)

lemma get_credentials_Inl:
  assumes "get_credentials io a = (Inl x, a', calls)"
  shows "(\<exists>e. x = HTTPException 500 ''Failed to get AWS credentials: ''
                 (Some (Exception ''Failed to refresh AWS credentials: '' (Some e))))
         \<and> a' = aws_clear_cache a"
proof (cases "should_refresh_credentials a (aws_utcnow io)")
  case False
  with assms show ?thesis
    by (simp add: get_credentials_def)
next
  case True
  from get_credentials_stale_cases[OF True] assms show ?thesis
    by auto
qed

lemma refresh_try_raises:
  assumes "should_refresh_credentials a (aws_utcnow io)"
    and "fst (refresh_credentials_try io a) = Inl e"
  shows "fst (get_credentials io a) =
           Inl (HTTPException 500 ''Failed to get AWS credentials: ''
                 (Some (Exception ''Failed to refresh AWS credentials: '' (Some e))))"
  using assms
  by (cases "refresh_credentials_try io a") (simp add: get_credentials_def refresh_credentials_def)

text \<open>
  Claim C2. Whenever \<open>get_token\<close> or \<open>get_credentials\<close> fails, it fails with an
  \<open>HTTPException\<close> of status 500 that wraps the upstream error, and the manager it leaves
  has the cached value, the expiry and the credential handle all unset; and whenever the
  cache is stale and the refresh path raises, the call does fail in this way.
\<close>

theorem failed_refresh_clears_cache:
  "(get_token io g = (Inl x, g', calls) \<longrightarrow>
      (\<exists>e. x = HTTPException 500 ''Failed to get Google Cloud token: '' (Some e))
      \<and> token_cache g' = None \<and> token_expiry g' = None \<and> credentials g' = None)
   \<and> (\<not> is_token_valid g (gcp_now io) \<and> fst (get_token_try io g) = Inl e \<longrightarrow>
      fst (get_token io g) =
        Inl (HTTPException 500 ''Failed to get Google Cloud token: '' (Some e)))
   \<and> (get_credentials aio a = (Inl y, a', acalls) \<longrightarrow>
      (\<exists>e. y = HTTPException 500 ''Failed to get AWS credentials: ''
                 (Some (Exception ''Failed to refresh AWS credentials: '' (Some e))))
      \<and> credentials_cache a' = None \<and> credentials_expiry a' = None
      \<and> google_credentials a' = None)
   \<and> (should_refresh_credentials a (aws_utcnow aio)
        \<and> fst (refresh_credentials_try aio a) = Inl e' \<longrightarrow>
      fst (get_credentials aio a) =
        Inl (HTTPException 500 ''Failed to get AWS credentials: ''
              (Some (Exception ''Failed to refresh AWS credentials: '' (Some e')))))"
proof (intro conjI impI)
  assume h: "get_token io g = (Inl x, g', calls)"
  from get_token_Inl[OF h]
  show "\<exists>e. x = HTTPException 500 ''Failed to get Google Cloud token: '' (Some e)"
    and "token_cache g' = None" and "token_expiry g' = None" and "credentials g' = None"
    by (simp_all add: gcp_clear_cache_def)
next
  assume "\<not> is_token_valid g (gcp_now io) \<and> fst (get_token_try io g) = Inl e"
  then show "fst (get_token io g) =
        Inl (HTTPException 500 ''Failed to get Google Cloud token: '' (Some e))"
    using get_token_try_raises by blast
next
  assume h: "get_credentials aio a = (Inl y, a', acalls)"
  from get_credentials_Inl[OF h]
  show "\<exists>e. y = HTTPException 500 ''Failed to get AWS credentials: ''
                 (Some (Exception ''Failed to refresh AWS credentials: '' (Some e)))"
    and "credentials_cache a' = None" and "credentials_expiry a' = None"
    and "google_credentials a' = None"
    by (simp_all add: aws_clear_cache_def)
next
  assume "should_refresh_credentials a (aws_utcnow aio)
        \<and> fst (refresh_credentials_try aio a) = Inl e'"
  then show "fst (get_credentials aio a) =
        Inl (HTTPException 500 ''Failed to get AWS credentials: ''
              (Some (Exception ''Failed to refresh AWS credentials: '' (Some e'))))"
    using refresh_try_raises by blast
qed

theorem failed_refresh_clears_cache_witness:
  "\<not> is_token_valid example_gcp_cached 3302000000
   \<and> fst (get_token_try (example_gcp_fail\<lparr>gcp_now := 3302000000\<rparr>) example_gcp_cached)
       = Inl (LibraryError ''refresh'')
   \<and> get_token (example_gcp_fail\<lparr>gcp_now := 3302000000\<rparr>) example_gcp_cached
       = (Inl (HTTPException 500 ''Failed to get Google Cloud token: ''
                (Some (LibraryError ''refresh''))),
          example_gcp, [IdentityRefresh])
   \<and> token_cache example_gcp = None \<and> token_expiry example_gcp = None
   \<and> credentials example_gcp = None
   \<and> should_refresh_credentials example_aws_cached 3302000000
   \<and> credentials_cache
         (fst (snd (refresh_credentials_try (example_aws_partial\<lparr>aws_utcnow := 3302000000\<rparr>)
                      example_aws_cached)))
       = Some [(''aws_access_key_id'', ''AKIA''), (''aws_secret_access_key'', ''secret''),
               (''aws_session_token'', ''session'')]
   \<and> get_credentials (example_aws_partial\<lparr>aws_utcnow := 3302000000\<rparr>) example_aws_cached
       = (Inl (HTTPException 500 ''Failed to get AWS credentials: ''
                (Some (Exception ''Failed to refresh AWS credentials: ''
                        (Some (KeyError ''Expiration''))))),
          example_aws, [IdentityRefresh, AssumeRoleWithWebIdentity])
   \<and> credentials_cache example_aws = None \<and> credentials_expiry example_aws = None
   \<and> google_credentials example_aws = None"
proof -
  define io where "io = example_gcp_fail\<lparr>gcp_now := 3302000000\<rparr>"
  define aio where "aio = example_aws_partial\<lparr>aws_utcnow := 3302000000\<rparr>"
  have stale: "\<not> is_token_valid example_gcp_cached 3302000000"
    by (simp add: example_defs is_token_valid_def falsy_def timedelta_def)
  have tried: "get_token_try io example_gcp_cached =
      (Inl (LibraryError ''refresh''), example_gcp_cached, [IdentityRefresh])"
    by (simp add: io_def example_defs get_token_try_def)
  have now: "gcp_now io = 3302000000"
    by (simp add: io_def example_defs)
  have clear: "gcp_clear_cache example_gcp_cached = example_gcp"
    by (simp add: example_defs gcp_clear_cache_def)
  from stale tried now clear have full: "get_token io example_gcp_cached =
      (Inl (HTTPException 500 ''Failed to get Google Cloud token: ''
             (Some (LibraryError ''refresh''))), example_gcp, [IdentityRefresh])"
    by (simp add: get_token_def)
  have astale: "should_refresh_credentials example_aws_cached 3302000000"
    by (simp add: example_defs should_refresh_credentials_def falsy_def timedelta_def)
  have atried: "refresh_credentials_try aio example_aws_cached =
      (Inl (KeyError ''Expiration''),
       example_aws_cached\<lparr>google_credentials := Some \<lparr>audience = ''provider'',
           subject_token_type = ''urn:ietf:params:oauth:token-type:jwt'',
           token_url = ''pool'', scope = None, token = Some ''tok''\<rparr>,
         credentials_cache := Some [(''aws_access_key_id'', ''AKIA''),
           (''aws_secret_access_key'', ''secret''), (''aws_session_token'', ''session'')]\<rparr>,
       [IdentityRefresh, AssumeRoleWithWebIdentity])"
    by (simp add: aio_def example_defs refresh_credentials_try_def cache_entry_def
        subscript_def Let_def)
  have anow: "aws_utcnow aio = 3302000000"
    by (simp add: aio_def example_defs)
  have aclear: "aws_clear_cache (aws_clear_cache (fst (snd (refresh_credentials_try aio
      example_aws_cached)))) = example_aws"
    unfolding atried by (simp add: example_defs aws_clear_cache_def)
  from astale atried anow aclear have afull: "get_credentials aio example_aws_cached =
      (Inl (HTTPException 500 ''Failed to get AWS credentials: ''
             (Some (Exception ''Failed to refresh AWS credentials: ''
                     (Some (KeyError ''Expiration''))))),
       example_aws, [IdentityRefresh, AssumeRoleWithWebIdentity])"
    by (simp add: get_credentials_def refresh_credentials_def)
  note T = failed_refresh_clears_cache[where io = io and g = example_gcp_cached
      and g' = example_gcp and calls = "[IdentityRefresh]" and e = "LibraryError ''refresh''"
      and aio = aio and a = example_aws_cached and a' = example_aws
      and acalls = "[IdentityRefresh, AssumeRoleWithWebIdentity]"
      and e' = "KeyError ''Expiration''"]
  from T full have c: "token_cache example_gcp = None \<and> token_expiry example_gcp = None
      \<and> credentials example_gcp = None"
    by blast
  from T afull have ac: "credentials_cache example_aws = None
      \<and> credentials_expiry example_aws = None \<and> google_credentials example_aws = None"
    by blast
  from stale tried full c astale atried afull ac show ?thesis
    unfolding io_def aio_def by simp
qed

lemma get_token_valid:
  "is_token_valid g (gcp_now io) \<Longrightarrow> get_token io g = (Inr (token_cache g), g, [])"
  by (simp add: get_token_def)

lemma get_credentials_valid:
  "\<not> should_refresh_credentials a (aws_utcnow io) \<Longrightarrow>
     get_credentials io a = (Inr (credentials_cache a), a, [])"
  by (simp add: get_credentials_def)

lemma get_token_calls_valid:
  "list_all (\<lambda>io. is_token_valid g (gcp_now io)) ios \<Longrightarrow>
     get_token_calls ios g = (map (\<lambda>io. Inr (token_cache g)) ios, g, [])"
  by (induction ios) (simp_all add: get_token_valid)

lemma get_credentials_calls_valid:
  "list_all (\<lambda>io. \<not> should_refresh_credentials a (aws_utcnow io)) ios \<Longrightarrow>
     get_credentials_calls ios a = (map (\<lambda>io. Inr (credentials_cache a)) ios, a, [])"
  by (induction ios) (simp_all add: get_credentials_valid)

text \<open>
  Claim C3. Any number of calls made while the cached entry is valid make no call outside
  the process, leave the manager unchanged, and each returns the cached value.
\<close>

theorem valid_cache_no_network:
  "(list_all (\<lambda>io. is_token_valid g (gcp_now io)) ios \<longrightarrow>
      get_token_calls ios g = (map (\<lambda>io. Inr (token_cache g)) ios, g, []))
   \<and> (list_all (\<lambda>io. \<not> should_refresh_credentials a (aws_utcnow io)) aios \<longrightarrow>
      get_credentials_calls aios a = (map (\<lambda>io. Inr (credentials_cache a)) aios, a, []))"
  using get_token_calls_valid get_credentials_calls_valid by blast

theorem valid_cache_no_network_witness:
  "list_all (\<lambda>io. is_token_valid example_gcp_cached (gcp_now io))
     [example_gcp_ok, example_gcp_fail, example_gcp_ok\<lparr>gcp_now := 3301999999\<rparr>]
   \<and> get_token_calls
        [example_gcp_ok, example_gcp_fail, example_gcp_ok\<lparr>gcp_now := 3301999999\<rparr>]
        example_gcp_cached
       = ([Inr (Some ''old''), Inr (Some ''old''), Inr (Some ''old'')], example_gcp_cached, [])
   \<and> list_all (\<lambda>io. \<not> should_refresh_credentials example_aws_cached (aws_utcnow io))
        [example_aws_ok, example_aws_partial]
   \<and> get_credentials_calls [example_aws_ok, example_aws_partial] example_aws_cached
       = ([Inr (credentials_cache example_aws_cached),
           Inr (credentials_cache example_aws_cached)], example_aws_cached, [])"
proof -
  have v: "list_all (\<lambda>io. is_token_valid example_gcp_cached (gcp_now io))
     [example_gcp_ok, example_gcp_fail, example_gcp_ok\<lparr>gcp_now := 3301999999\<rparr>]"
    by (simp add: example_defs is_token_valid_def falsy_def timedelta_def)
  have av: "list_all (\<lambda>io. \<not> should_refresh_credentials example_aws_cached (aws_utcnow io))
        [example_aws_ok, example_aws_partial]"
    by (simp add: example_defs should_refresh_credentials_def falsy_def timedelta_def)
  have t: "token_cache example_gcp_cached = Some ''old''"
    by (simp add: example_defs)
  note T = valid_cache_no_network[where g = example_gcp_cached
      and ios = "[example_gcp_ok, example_gcp_fail, example_gcp_ok\<lparr>gcp_now := 3301999999\<rparr>]"
      and a = example_aws_cached and aios = "[example_aws_ok, example_aws_partial]"]
  from T v av t show ?thesis
    by simp
qed

lemma gcp_step_paired: "gcp_paired g \<Longrightarrow> gcp_paired (gcp_step op g)"
proof (cases op)
  case (GetToken io)
  assume p: "gcp_paired g"
  show ?thesis
  proof (cases "is_token_valid g (gcp_now io)")
    case True
    with p GetToken show ?thesis
      by (simp add: get_token_valid)
  next
    case False
    from get_token_stale_cases[OF False] GetToken show ?thesis
      by (auto simp: gcp_paired_def gcp_clear_cache_def)
  qed
next
  case GcpClearCache
  then show ?thesis
    by (simp add: gcp_paired_def gcp_clear_cache_def)
qed

lemma refresh_credentials_cases:
  "(\<exists>e calls. refresh_credentials io s =
        (Inl (Exception ''Failed to refresh AWS credentials: '' (Some e)),
         aws_clear_cache s, calls))
   \<or> (\<exists>h response entry expiration.
        cache_entry response = Inr entry
        \<and> refresh_credentials io s =
            (Inr (),
             s\<lparr>google_credentials := Some h, credentials_cache := Some entry,
               credentials_expiry := Some (strip_microseconds expiration)\<rparr>,
             [IdentityRefresh, AssumeRoleWithWebIdentity]))"
proof (cases "refresh_credentials_try io s")
  case (fields r s' calls)
  show ?thesis
  proof (cases r)
    case (Inl e)
    with fields refresh_try_Inl[of io s e s' calls] show ?thesis
      by (simp add: refresh_credentials_def)
  next
    case (Inr u)
    with fields refresh_try_Inr[of io s u s' calls] show ?thesis
      by (auto simp: refresh_credentials_def)
  qed
qed

lemma aws_step_paired: "aws_paired a \<Longrightarrow> aws_paired (aws_step op a)"
proof (cases op)
  case (GetCredentials io)
  assume p: "aws_paired a"
  show ?thesis
  proof (cases "should_refresh_credentials a (aws_utcnow io)")
    case False
    with p GetCredentials show ?thesis
      by (simp add: get_credentials_valid)
  next
    case True
    from get_credentials_stale_cases[OF True] GetCredentials show ?thesis
      by (auto simp: aws_paired_def aws_clear_cache_def dest: cache_entry_keys)
  qed
next
  case (RefreshCredentials io)
  with refresh_credentials_cases[of io a] show ?thesis
    by (auto simp: aws_paired_def aws_clear_cache_def dest: cache_entry_keys)
next
  case AwsClearCache
  then show ?thesis
    by (simp add: aws_paired_def aws_clear_cache_def)
qed

lemma gcp_fold_paired: "gcp_paired g \<Longrightarrow> gcp_paired (fold gcp_step ops g)"
  by (induction ops arbitrary: g) (simp_all add: gcp_step_paired)

lemma aws_fold_paired: "aws_paired a \<Longrightarrow> aws_paired (fold aws_step ops a)"
  by (induction ops arbitrary: a) (simp_all add: aws_step_paired)

lemma gcp_init_paired: "GCPTokenManager p q = Inr g \<Longrightarrow> gcp_paired g"
  by (auto simp: GCPTokenManager_def gcp_paired_def split: option.splits if_splits)

lemma aws_init_paired: "AWSCredentialsManager r p q reg = Inr a \<Longrightarrow> aws_paired a"
  by (auto simp: AWSCredentialsManager_def aws_paired_def split: option.splits if_splits)

lemma gcp_step_paired_nonempty:
  assumes "gcp_paired_nonempty g" and "upstream_token_nonempty op"
  shows "gcp_paired_nonempty (gcp_step op g)"
proof (cases op)
  case (GetToken io)
  show ?thesis
  proof (cases "is_token_valid g (gcp_now io)")
    case True
    with assms GetToken show ?thesis
      by (simp add: get_token_valid)
  next
    case False
    from get_token_stale_cases[OF False] GetToken assms(2) show ?thesis
      by (auto simp: gcp_paired_nonempty_def gcp_clear_cache_def upstream_token_nonempty_def)
  qed
next
  case GcpClearCache
  then show ?thesis
    by (simp add: gcp_paired_nonempty_def gcp_clear_cache_def)
qed

lemma subscript_nonempty:
  "list_all (\<lambda>x. snd x \<noteq> []) d \<Longrightarrow> subscript d k = Inr v \<Longrightarrow> v \<noteq> []"
  by (auto simp: subscript_def list_all_iff split: option.splits dest!: map_of_SomeD)

lemma cache_entry_nonempty:
  assumes "cache_entry response = Inr entry"
    and "list_all (\<lambda>x. snd x \<noteq> []) (Credentials response)"
  shows "list_all (\<lambda>x. snd x \<noteq> []) entry"
  using assms
  by (auto simp: cache_entry_def split: sum.splits dest: subscript_nonempty)

lemma refresh_credentials_cases_reply:
  "(\<exists>e calls. refresh_credentials io s =
        (Inl (Exception ''Failed to refresh AWS credentials: '' (Some e)),
         aws_clear_cache s, calls))
   \<or> (\<exists>h response entry expiration.
        aws_assume_role io = Inr response \<and> cache_entry response = Inr entry
        \<and> refresh_credentials io s =
            (Inr (),
             s\<lparr>google_credentials := Some h, credentials_cache := Some entry,
               credentials_expiry := Some (strip_microseconds expiration)\<rparr>,
             [IdentityRefresh, AssumeRoleWithWebIdentity]))"
proof (cases "refresh_credentials_try io s")
  case (fields r s' calls)
  show ?thesis
  proof (cases r)
    case (Inl e)
    with fields refresh_try_Inl[of io s e s' calls] show ?thesis
      by (simp add: refresh_credentials_def)
  next
    case (Inr u)
    with fields refresh_try_Inr[of io s u s' calls] show ?thesis
      by (auto simp: refresh_credentials_def)
  qed
qed

lemma aws_step_paired_nonempty:
  assumes "aws_paired_nonempty a" and "upstream_triple_nonempty op"
  shows "aws_paired_nonempty (aws_step op a)"
proof (cases op)
  case (GetCredentials io)
  show ?thesis
  proof (cases "should_refresh_credentials a (aws_utcnow io)")
    case False
    with assms GetCredentials show ?thesis
      by (simp add: get_credentials_valid)
  next
    case True
    from get_credentials_stale_cases[OF True] GetCredentials assms(2) show ?thesis
      by (auto simp: aws_paired_nonempty_def aws_clear_cache_def upstream_triple_nonempty_def
          reply_nonempty_def dest: cache_entry_keys cache_entry_nonempty)
  qed
next
  case (RefreshCredentials io)
  with refresh_credentials_cases_reply[of io a] assms(2) show ?thesis
    by (auto simp: aws_paired_nonempty_def aws_clear_cache_def upstream_triple_nonempty_def
        reply_nonempty_def dest: cache_entry_keys cache_entry_nonempty)
next
  case AwsClearCache
  then show ?thesis
    by (simp add: aws_paired_nonempty_def aws_clear_cache_def)
qed

lemma gcp_fold_paired_nonempty:
  "gcp_paired_nonempty g \<Longrightarrow> list_all upstream_token_nonempty ops \<Longrightarrow>
     gcp_paired_nonempty (fold gcp_step ops g)"
  by (induction ops arbitrary: g) (simp_all add: gcp_step_paired_nonempty)

lemma aws_fold_paired_nonempty:
  "aws_paired_nonempty a \<Longrightarrow> list_all upstream_triple_nonempty ops \<Longrightarrow>
     aws_paired_nonempty (fold aws_step ops a)"
  by (induction ops arbitrary: a) (simp_all add: aws_step_paired_nonempty)

lemma gcp_init_paired_nonempty: "GCPTokenManager p q = Inr g \<Longrightarrow> gcp_paired_nonempty g"
  by (auto simp: GCPTokenManager_def gcp_paired_nonempty_def split: option.splits if_splits)

lemma aws_init_paired_nonempty:
  "AWSCredentialsManager r p q reg = Inr a \<Longrightarrow> aws_paired_nonempty a"
  by (auto simp: AWSCredentialsManager_def aws_paired_nonempty_def split: option.splits if_splits)

text \<open>
  Claim C9. The pairing of the cache fields holds of a freshly constructed manager and is
  kept by every operation (a call that refreshes successfully, a call whose refresh fails,
  a call answered from the cache, clearing): the token is set exactly when its expiry is,
  and the credential dictionary, always the whole triple, is set exactly when its expiry
  is. The strings are those the upstream returned: when every successful upstream reply
  holds non-empty strings, the cached token is non-empty exactly when the expiry is set,
  and so are all three strings of the triple.
\<close>

theorem caches_paired:
  "(gcp_paired g \<longrightarrow> gcp_paired (fold gcp_step ops g))
   \<and> (GCPTokenManager pool provider = Inr g0 \<longrightarrow> gcp_paired (fold gcp_step ops g0))
   \<and> (GCPTokenManager pool provider = Inr g0 \<and> list_all upstream_token_nonempty ops \<longrightarrow>
        gcp_paired_nonempty (fold gcp_step ops g0))
   \<and> (aws_paired a \<longrightarrow> aws_paired (fold aws_step aops a))
   \<and> (AWSCredentialsManager role apool aprovider reg = Inr a0 \<longrightarrow>
        aws_paired (fold aws_step aops a0))
   \<and> (AWSCredentialsManager role apool aprovider reg = Inr a0
        \<and> list_all upstream_triple_nonempty aops \<longrightarrow>
        aws_paired_nonempty (fold aws_step aops a0))"
proof (intro conjI impI)
  show "gcp_paired g \<Longrightarrow> gcp_paired (fold gcp_step ops g)"
    by (rule gcp_fold_paired)
  show "GCPTokenManager pool provider = Inr g0 \<Longrightarrow> gcp_paired (fold gcp_step ops g0)"
    by (rule gcp_fold_paired) (rule gcp_init_paired)
  show "GCPTokenManager pool provider = Inr g0 \<and> list_all upstream_token_nonempty ops \<Longrightarrow>
      gcp_paired_nonempty (fold gcp_step ops g0)"
    using gcp_fold_paired_nonempty gcp_init_paired_nonempty by blast
  show "aws_paired a \<Longrightarrow> aws_paired (fold aws_step aops a)"
    by (rule aws_fold_paired)
  show "AWSCredentialsManager role apool aprovider reg = Inr a0 \<Longrightarrow>
      aws_paired (fold aws_step aops a0)"
    by (rule aws_fold_paired) (rule aws_init_paired)
  show "AWSCredentialsManager role apool aprovider reg = Inr a0
      \<and> list_all upstream_triple_nonempty aops \<Longrightarrow>
      aws_paired_nonempty (fold aws_step aops a0)"
    using aws_fold_paired_nonempty aws_init_paired_nonempty by blast
qed

theorem caches_paired_witness:
  "gcp_paired example_gcp_cached
   \<and> GCPTokenManager (Some ''pool'') (Some ''provider'') = Inr example_gcp
   \<and> list_all upstream_token_nonempty
        [GetToken example_gcp_ok, GetToken (example_gcp_fail\<lparr>gcp_now := 3302000000\<rparr>),
         GcpClearCache]
   \<and> gcp_paired (fold gcp_step
        [GetToken example_gcp_ok, GetToken (example_gcp_fail\<lparr>gcp_now := 3302000000\<rparr>),
         GcpClearCache] example_gcp_cached)
   \<and> gcp_paired_nonempty (fold gcp_step
        [GetToken example_gcp_ok, GetToken (example_gcp_fail\<lparr>gcp_now := 3302000000\<rparr>),
         GcpClearCache] example_gcp)
   \<and> aws_paired example_aws_cached
   \<and> AWSCredentialsManager (Some ''role'') (Some ''pool'') (Some ''provider'') None
       = Inr example_aws
   \<and> list_all upstream_triple_nonempty
        [GetCredentials example_aws_ok, RefreshCredentials example_aws_partial, AwsClearCache]
   \<and> aws_paired (fold aws_step
        [GetCredentials example_aws_ok, RefreshCredentials example_aws_partial, AwsClearCache]
        example_aws_cached)
   \<and> aws_paired_nonempty (fold aws_step
        [GetCredentials example_aws_ok, RefreshCredentials example_aws_partial, AwsClearCache]
        example_aws)"
proof -
  have p: "gcp_paired example_gcp_cached"
    by (simp add: example_defs gcp_paired_def)
  have i: "GCPTokenManager (Some ''pool'') (Some ''provider'') = Inr example_gcp"
    by (simp add: example_defs GCPTokenManager_def)
  have u: "list_all upstream_token_nonempty
        [GetToken example_gcp_ok, GetToken (example_gcp_fail\<lparr>gcp_now := 3302000000\<rparr>),
         GcpClearCache]"
    by (simp add: example_defs upstream_token_nonempty_def)
  have ap: "aws_paired example_aws_cached"
    by (simp add: example_defs aws_paired_def)
  have ai: "AWSCredentialsManager (Some ''role'') (Some ''pool'') (Some ''provider'') None
       = Inr example_aws"
    by (simp add: example_defs AWSCredentialsManager_def)
  have au: "list_all upstream_triple_nonempty
        [GetCredentials example_aws_ok, RefreshCredentials example_aws_partial, AwsClearCache]"
    by (simp add: example_defs upstream_triple_nonempty_def reply_nonempty_def)
  note T = caches_paired[where g = example_gcp_cached and g0 = example_gcp
      and pool = "Some ''pool''" and provider = "Some ''provider''"
      and ops = "[GetToken example_gcp_ok, GetToken (example_gcp_fail\<lparr>gcp_now := 3302000000\<rparr>),
         GcpClearCache]"
      and a = example_aws_cached and a0 = example_aws
      and role = "Some ''role''" and apool = "Some ''pool''" and aprovider = "Some ''provider''"
      and reg = None
      and aops = "[GetCredentials example_aws_ok, RefreshCredentials example_aws_partial,
         AwsClearCache]"]
  from T p i u ap ai au show ?thesis
    by blast
qed

section \<open>Response normalisation is idempotent\<close>

lemma setitem_fresh: "k \<notin> fst ` set d \<Longrightarrow> setitem d k v = d @ [(k, v)]"
  by (induction d) auto

lemma setitem_keys: "fst ` set (setitem d k v) = insert k (fst ` set d)"
  by (induction d) force+

lemma setitem_distinct: "distinct (map fst d) \<Longrightarrow> distinct (map fst (setitem d k v))"
proof (induction d)
  case Nil
  then show ?case by simp
next
  case (Cons a d)
  obtain k' v' where a: "a = (k', v')"
    by (cases a)
  from Cons have "k' \<notin> fst ` set d" and "distinct (map fst (setitem d k v))"
    by (auto simp: a)
  then show ?case
    using Cons.prems by (auto simp: a setitem_keys)
qed

lemma setitem_values:
  "\<forall>x \<in> set d. binary (snd x) = None \<Longrightarrow> binary v = None \<Longrightarrow>
     \<forall>x \<in> set (setitem d k v). binary (snd x) = None"
  by (induction d) (force split: if_splits)+

lemma clean_items_result:
  assumes "clean_items decode response keys acc = Inr out"
    and "distinct (map fst acc)" and "\<forall>x \<in> set acc. binary (snd x) = None"
  shows "distinct (map fst out) \<and> (\<forall>x \<in> set out. binary (snd x) = None)"
  using assms
proof (induction keys arbitrary: acc)
  case Nil
  then show ?case by simp
next
  case (Cons key keys)
  from Cons.prems(1) obtain "value" where v: "subscript response key = Inr value"
    by (auto split: sum.splits)
  show ?case
  proof (cases "binary value")
    case None
    with Cons.prems(1) v
    have "clean_items decode response keys (setitem acc key value) = Inr out"
      by simp
    moreover have "distinct (map fst (setitem acc key value))"
      using Cons.prems(2) by (rule setitem_distinct)
    moreover have "\<forall>x \<in> set (setitem acc key value). binary (snd x) = None"
      using Cons.prems(3) None by (rule setitem_values)
    ultimately show ?thesis
      by (rule Cons.IH)
  next
    case (Some b)
    with Cons.prems(1) v obtain decoded where
      "clean_items decode response keys (setitem acc key (PStr decoded)) = Inr out"
      by (auto split: sum.splits)
    moreover have "distinct (map fst (setitem acc key (PStr decoded)))"
      using Cons.prems(2) by (rule setitem_distinct)
    moreover have "\<forall>x \<in> set (setitem acc key (PStr decoded)). binary (snd x) = None"
      using Cons.prems(3) by (rule setitem_values) simp
    ultimately show ?thesis
      by (rule Cons.IH)
  qed
qed

lemma clean_items_fixed:
  assumes "distinct (map fst (pre @ suf))" and "\<forall>x \<in> set (pre @ suf). binary (snd x) = None"
  shows "clean_items decode (pre @ suf) (map fst suf) pre = Inr (pre @ suf)"
  using assms
proof (induction suf arbitrary: pre)
  case Nil
  then show ?case by simp
next
  case (Cons a suf)
  obtain k v where a: "a = (k, v)"
    by (cases a)
  from Cons.prems(1) have fresh: "k \<notin> fst ` set pre"
    by (auto simp: a)
  then have "map_of pre k = None"
    by (simp add: map_of_eq_None_iff)
  then have look: "subscript (pre @ a # suf) k = Inr v"
    by (simp add: subscript_def a map_add_def)
  from Cons.prems(2) have nb: "binary v = None"
    by (simp add: a)
  have eq: "(pre @ [a]) @ suf = pre @ a # suf"
    by simp
  have "clean_items decode ((pre @ [a]) @ suf) (map fst suf) (pre @ [a]) = Inr ((pre @ [a]) @ suf)"
    using Cons.prems by (intro Cons.IH) simp_all
  then show ?case
    using look nb fresh by (simp add: a setitem_fresh)
qed

lemma clean_response_dict_fixed:
  assumes "distinct (map fst d)" and "\<forall>x \<in> set d. binary (snd x) = None"
  shows "clean_response decode (PDict d) = Inr (PDict d)"
  using clean_items_fixed[of "[]" d decode] assms by (simp add: clean_response_def)

lemma clean_response_fixed:
  assumes "clean_response decode response = Inr cleaned"
  shows "clean_response decode cleaned = Inr cleaned"
proof (cases "binary response")
  case (Some b)
  with assms obtain decoded where "cleaned = PDict [(''body'', PStr decoded)]"
    by (auto simp: clean_response_def split: sum.splits)
  then show ?thesis
    by (simp add: clean_response_dict_fixed)
next
  case None
  show ?thesis
  proof (cases response)
    case (PDict items)
    with assms None obtain out where
      out: "clean_items decode items (map fst items) [] = Inr out" "cleaned = PDict out"
      by (auto simp: clean_response_def split: sum.splits)
    from clean_items_result[OF out(1)] show ?thesis
      by (simp add: out(2) clean_response_dict_fixed)
  qed (use assms None in \<open>auto simp: clean_response_def\<close>)
qed

lemma clean_items_entries:
  assumes "distinct (map fst (done @ suf))" and "map fst acc = map fst done"
  shows "clean_items decode (done @ suf) (map fst suf) acc =
           (case decode_entries decode suf of Inl e \<Rightarrow> Inl e | Inr out \<Rightarrow> Inr (acc @ out))"
  using assms
proof (induction suf arbitrary: "done" acc)
  case Nil
  then show ?case by simp
next
  case (Cons a suf)
  obtain k v where a: "a = (k, v)"
    by (cases a)
  from Cons.prems(1) have fresh: "k \<notin> fst ` set done"
    by (auto simp: a)
  then have "map_of done k = None"
    by (simp add: map_of_eq_None_iff)
  then have look: "subscript (done @ a # suf) k = Inr v"
    by (simp add: subscript_def a map_add_def)
  from Cons.prems(2) have "fst ` set acc = fst ` set done"
    by (metis set_map)
  with fresh have afresh: "k \<notin> fst ` set acc"
    by simp
  have step: "clean_items decode ((done @ [a]) @ suf) (map fst suf) (acc @ [(k, v')]) =
      (case decode_entries decode suf of
         Inl e \<Rightarrow> Inl e
       | Inr out \<Rightarrow> Inr ((acc @ [(k, v')]) @ out))" for v'
    using Cons.prems by (intro Cons.IH) (simp_all add: a)
  show ?case
  proof (cases "binary v")
    case None
    with look afresh step[of v] show ?thesis
      by (simp add: a setitem_fresh split: sum.splits)
  next
    case (Some b)
    show ?thesis
    proof (cases "decode b")
      case (Inl e)
      with Some look show ?thesis
        by (simp add: a)
    next
      case (Inr t)
      with Some look afresh step[of "PStr t"] show ?thesis
        by (simp add: a setitem_fresh split: sum.splits)
    qed
  qed
qed

lemma clean_response_binary:
  "binary response = Some b \<Longrightarrow>
     clean_response decode response =
       (case decode b of Inl e \<Rightarrow> Inl e | Inr t \<Rightarrow> Inr (PDict [(''body'', PStr t)]))"
  by (simp add: clean_response_def)

lemma clean_response_mapping:
  assumes "distinct (map fst items)"
  shows "clean_response decode (PDict items) =
           (case decode_entries decode items of Inl e \<Rightarrow> Inl e | Inr out \<Rightarrow> Inr (PDict out))"
  using clean_items_entries[of "[]" items "[]" decode] assms
  by (simp add: clean_response_def split: sum.splits)

lemma clean_response_other:
  "binary response = None \<Longrightarrow> \<not> has_get response \<Longrightarrow>
     clean_response decode response = Inr response"
  by (cases response) (simp_all add: clean_response_def)

lemma clean_response_body_fixed:
  "clean_response decode (PDict [(''body'', PStr t)]) = Inr (PDict [(''body'', PStr t)])"
  by (simp add: clean_response_dict_fixed)

lemma clean_response_entries_fixed:
  assumes "distinct (map fst items)" and "decode_entries decode items = Inr out"
  shows "clean_response decode (PDict out) = Inr (PDict out)"
proof -
  from assms clean_response_mapping[of items decode]
  have "clean_response decode (PDict items) = Inr (PDict out)"
    by simp
  then show ?thesis
    by (rule clean_response_fixed)
qed

lemma decode_hi: "decode_ascii [104, 105] = Inr ''hi''"
  by code_simp

lemma decode_ok: "decode_ascii [111, 107] = Inr ''ok''"
  by code_simp

lemma decode_bad: "decode_ascii [255] = Inl UnicodeDecodeError"
  by (simp add: decode_ascii_def)

text \<open>
  Claim C10. For every response and every codec: a binary payload becomes the dictionary
  with the decoded text under \<open>body\<close> (or the codec's exception), and that dictionary is
  left as it is by another pass; a dictionary has every binary entry replaced by its
  decoded text and every other entry kept, keys and order unchanged (or the first
  exception of the codec), and the result is left as it is by another pass; every value
  that is neither binary nor a dictionary is returned unchanged; and in all cases applying
  \<open>clean_response\<close> to its own result gives the result of applying it once, an exception
  of the first pass being the result of both.
\<close>

theorem clean_response_idempotent:
  "clean_twice decode response = clean_response decode response
   \<and> (binary response = Some b \<longrightarrow>
        clean_response decode response =
          (case decode b of Inl e \<Rightarrow> Inl e | Inr t \<Rightarrow> Inr (PDict [(''body'', PStr t)])))
   \<and> clean_response decode (PDict [(''body'', PStr t)]) = Inr (PDict [(''body'', PStr t)])
   \<and> (distinct (map fst items) \<longrightarrow>
        clean_response decode (PDict items) =
          (case decode_entries decode items of
             Inl e \<Rightarrow> Inl e
           | Inr out \<Rightarrow> Inr (PDict out)))
   \<and> (distinct (map fst items) \<and> decode_entries decode items = Inr out \<longrightarrow>
        clean_response decode (PDict out) = Inr (PDict out))
   \<and> (binary response = None \<and> \<not> has_get response \<longrightarrow>
        clean_response decode response = Inr response)"
proof (intro conjI impI)
  show "clean_twice decode response = clean_response decode response"
    by (cases "clean_response decode response")
       (simp_all add: clean_twice_def clean_response_fixed)
  show "binary response = Some b \<Longrightarrow>
      clean_response decode response =
        (case decode b of Inl e \<Rightarrow> Inl e | Inr t \<Rightarrow> Inr (PDict [(''body'', PStr t)]))"
    by (rule clean_response_binary)
  show "clean_response decode (PDict [(''body'', PStr t)]) = Inr (PDict [(''body'', PStr t)])"
    by (rule clean_response_body_fixed)
  show "distinct (map fst items) \<Longrightarrow>
      clean_response decode (PDict items) =
        (case decode_entries decode items of Inl e \<Rightarrow> Inl e | Inr out \<Rightarrow> Inr (PDict out))"
    by (rule clean_response_mapping)
  show "distinct (map fst items) \<and> decode_entries decode items = Inr out \<Longrightarrow>
      clean_response decode (PDict out) = Inr (PDict out)"
    using clean_response_entries_fixed by blast
  show "binary response = None \<and> \<not> has_get response \<Longrightarrow>
      clean_response decode response = Inr response"
    using clean_response_other by blast
qed

theorem clean_response_idempotent_witness:
  "binary binary_reply = Some [104, 105]
   \<and> clean_response decode_ascii binary_reply = Inr (PDict [(''body'', PStr ''hi'')])
   \<and> clean_twice decode_ascii binary_reply = Inr (PDict [(''body'', PStr ''hi'')])
   \<and> distinct (map fst [(''body'', PByteArray [111, 107]),
                         (''contentType'', PStr ''text/plain''), (''tokens'', PInt 2)])
   \<and> clean_response decode_ascii mapping_reply =
       Inr (PDict [(''body'', PStr ''ok''), (''contentType'', PStr ''text/plain''),
                   (''tokens'', PInt 2)])
   \<and> clean_twice decode_ascii mapping_reply =
       Inr (PDict [(''body'', PStr ''ok''), (''contentType'', PStr ''text/plain''),
                   (''tokens'', PInt 2)])
   \<and> binary (PList [PInt 1]) = None \<and> \<not> has_get (PList [PInt 1])
   \<and> clean_response decode_ascii (PList [PInt 1]) = Inr (PList [PInt 1])
   \<and> clean_twice decode_ascii (PBytes [255]) = Inl UnicodeDecodeError"
proof -
  define items where "items = [(''body'', PByteArray [111, 107]),
      (''contentType'', PStr ''text/plain''), (''tokens'', PInt 2)]"
  define out where "out = [(''body'', PStr ''ok''), (''contentType'', PStr ''text/plain''),
      (''tokens'', PInt 2)]"
  have b: "binary binary_reply = Some [104, 105]"
    by (simp add: binary_reply_def)
  have d: "distinct (map fst items)"
    by (simp add: items_def)
  have e: "decode_entries decode_ascii items = Inr out"
    by (simp add: items_def out_def decode_ok)
  have m: "mapping_reply = PDict items"
    by (simp add: mapping_reply_def items_def)
  have o: "binary (PList [PInt 1]) = None \<and> \<not> has_get (PList [PInt 1])"
    by simp
  note T1 = clean_response_idempotent[where decode = decode_ascii and response = binary_reply
      and b = "[104, 105]" and items = items and out = out]
  note T2 = clean_response_idempotent[where decode = decode_ascii and response = mapping_reply
      and items = items and out = out]
  note T3 = clean_response_idempotent[where decode = decode_ascii
      and response = "PList [PInt 1]"]
  note T4 = clean_response_idempotent[where decode = decode_ascii
      and response = "PBytes [255]" and b = "[255]"]
  from T1 b have c1: "clean_response decode_ascii binary_reply =
      Inr (PDict [(''body'', PStr ''hi'')])"
    by (simp add: decode_hi)
  from T1 c1 have c2: "clean_twice decode_ascii binary_reply =
      Inr (PDict [(''body'', PStr ''hi'')])"
    by simp
  from T2 d e m have c3: "clean_response decode_ascii mapping_reply = Inr (PDict out)"
    by simp
  from T2 c3 have c4: "clean_twice decode_ascii mapping_reply = Inr (PDict out)"
    by simp
  from T3 o have c5: "clean_response decode_ascii (PList [PInt 1]) = Inr (PList [PInt 1])"
    by blast
  from T4 have c6: "clean_twice decode_ascii (PBytes [255]) = Inl UnicodeDecodeError"
    by (simp add: decode_bad)
  from b c1 c2 d c3 c4 o c5 c6 show ?thesis
    by (simp add: items_def out_def)
qed

section \<open>What the endpoints answer\<close>

lemmas request_defs =
  denied_world_def approved_world_def invalid_op_request_def invoke_model_request_def
  example_proxyapp_def example_gateway_def example_manager_def example_main_def

lemma proxyapp_denied:
  "proxyapp_predict denied_world invoke_model_request example_proxyapp =
     (Inl (HTTPException 500 ''Error processing request: ''
            (Some (HTTPException 403 ''Request not approved by GCP Gateway'' None))),
      example_proxyapp, [GatewayPost])"
  by (simp add: proxyapp_predict_def proxyapp_predict_try_def forward_to_gcp_def
      dict_get_def request_defs)

lemma validate_denied:
  "validate_request denied_world (request_dict invoke_model_request) example_gateway =
     (Inl (HTTPException 500 ''Validation error: ''
            (Some (HTTPException 403 ''Request not approved by GCP Gateway'' None))),
      example_gateway\<lparr>token_manager := fst (snd (get_token example_gcp_ok example_gcp))\<rparr>,
      [IdentityRefresh, GatewayPost])"
  by (simp add: validate_request_def validate_request_try_def get_authorization_headers_def
      dict_get_def request_defs example_defs cache_defs)

lemma main_denied:
  "fst (main_predict denied_world invoke_model_request example_main) =
     Inl (HTTPException 500 ''Error processing request: ''
           (Some (HTTPException 500 ''Validation error: ''
                   (Some (HTTPException 403 ''Request not approved by GCP Gateway'' None)))))
   \<and> snd (snd (main_predict denied_world invoke_model_request example_main)) =
     [IdentityRefresh, GatewayPost]"
  by (simp add: main_predict_def main_predict_try_def validate_denied example_main_def)

lemma snake_invalid: "snake_case ''InvalidOp'' = ''invalid_op''"
  by code_simp

lemma snake_invoke: "snake_case ''InvokeModel'' = ''invoke_model''"
  by code_simp

lemma service_invalid: "determine_service ''InvalidOp'' = ''bedrock''"
  by code_simp

lemma call_invalid:
  "call_bedrock_service approved_world invalid_op_request example_proxyapp =
     (Inl (HTTPException 400 ''Invalid Bedrock operation: InvalidOp'' None),
      example_proxyapp\<lparr>instances := [(''bedrock'',
        \<lparr>client_service = ''bedrock'', client_region = ''us-east-1'',
         client_credentials = None\<rparr>)]\<rparr>, [])"
  by (simp add: call_bedrock_service_def call_bedrock_service_try_def proxyapp_get_client_def
      bedrock_handlers_def request_defs snake_invalid service_invalid Let_def)

lemma forward_approved:
  "forward_to_gcp approved_world payload =
     (Inr (PDict [(''status'', PStr ''approved'')]), [GatewayPost])"
  by (simp add: forward_to_gcp_def approved_world_def denied_world_def)

lemma predict_invalid:
  "proxyapp_predict approved_world invalid_op_request example_proxyapp =
     (Inl (HTTPException 500 ''Error processing request: ''
            (Some (HTTPException 400 ''Invalid Bedrock operation: InvalidOp'' None))),
      example_proxyapp\<lparr>instances := [(''bedrock'',
        \<lparr>client_service = ''bedrock'', client_region = ''us-east-1'',
         client_credentials = None\<rparr>)]\<rparr>, [GatewayPost])"
  by (simp add: proxyapp_predict_def proxyapp_predict_try_def forward_approved dict_get_def
      call_invalid)

lemma get_client_cached:
  "get_client approved_world ''InvokeModel''
     (example_manager\<lparr>credentials_manager := example_aws_cached\<rparr>) =
     (Inl (KeyError ''AccessKeyId''),
      example_manager\<lparr>credentials_manager := example_aws_cached\<rparr>, [])"
  by (simp add: get_client_def request_defs example_defs cache_defs)

lemma get_client_fresh:
  "fst (get_client approved_world ''InvokeModel'' example_manager) = Inl (KeyError ''AccessKeyId'')
   \<and> manager_instances (fst (snd (get_client approved_world ''InvokeModel'' example_manager))) = []
   \<and> snd (snd (get_client approved_world ''InvokeModel'' example_manager)) =
       [IdentityRefresh, AssumeRoleWithWebIdentity]"
  by (simp add: get_client_def request_defs example_defs cache_defs)


lemma proxyapp_predict_Inl:
  "case fst (proxyapp_predict w request s) of
     Inl e \<Rightarrow> (\<exists>c. e = HTTPException 500 ''Error processing request: '' (Some c))
   | Inr r \<Rightarrow> True"
  by (cases "proxyapp_predict_try w request s" rule: prod_cases3)
     (auto simp: proxyapp_predict_def split: sum.splits)

lemma main_predict_Inl:
  "case fst (main_predict w request s) of
     Inl e \<Rightarrow> (\<exists>c. e = HTTPException 500 ''Error processing request: '' (Some c))
   | Inr r \<Rightarrow> True"
  by (cases "main_predict_try w request s" rule: prod_cases3)
     (auto simp: main_predict_def split: sum.splits)

lemma validate_request_Inl:
  "case fst (validate_request w payload g) of
     Inl e \<Rightarrow> (\<exists>d c. e = HTTPException 500 d (Some c))
   | Inr r \<Rightarrow> True"
  by (cases "validate_request_try w payload g" rule: prod_cases3)
     (auto simp: validate_request_def split: sum.splits exn.splits)

lemma get_credentials_paired:
  assumes "aws_paired a"
  shows "aws_paired (fst (snd (get_credentials io a)))"
  using aws_step_paired[OF assms, of "GetCredentials io"] by simp

lemma get_credentials_returns_cache:
  "get_credentials io a = (Inr r, a', calls) \<Longrightarrow> r = credentials_cache a'"
  by (auto simp: get_credentials_def split: if_splits prod.splits sum.splits)

lemma paired_no_AccessKeyId:
  assumes "aws_paired a" and "credentials_cache a = Some d"
  shows "subscript d ''AccessKeyId'' = Inl (KeyError ''AccessKeyId'')"
proof -
  from assms have "map fst d =
      [''aws_access_key_id'', ''aws_secret_access_key'', ''aws_session_token'']"
    by (simp add: aws_paired_def)
  then have "fst ` set d =
      set [''aws_access_key_id'', ''aws_secret_access_key'', ''aws_session_token'']"
    by (metis set_map)
  then have "''AccessKeyId'' \<notin> fst ` set d"
    by simp
  then have "map_of d ''AccessKeyId'' = None"
    by (simp add: map_of_eq_None_iff)
  then show ?thesis
    by (simp add: subscript_def)
qed

lemma get_client_fails:
  assumes "aws_paired (credentials_manager s)"
  shows "isl (fst (get_client w op s))"
proof (cases "get_credentials (exchange w) (credentials_manager s)" rule: prod_cases3)
  case (fields r a' calls)
  from get_credentials_paired[OF assms, of "exchange w"] fields have p: "aws_paired a'"
    by simp
  show ?thesis
  proof (cases r)
    case (Inl e)
    with fields show ?thesis
      by (simp add: get_client_def)
  next
    case (Inr c)
    with fields have c: "c = credentials_cache a'"
      using get_credentials_returns_cache by blast
    show ?thesis
    proof (cases c)
      case None
      with fields Inr show ?thesis
        by (simp add: get_client_def)
    next
      case (Some d)
      with c p have "subscript d ''AccessKeyId'' = Inl (KeyError ''AccessKeyId'')"
        using paired_no_AccessKeyId by simp
      with fields Inr Some show ?thesis
        by (simp add: get_client_def)
    qed
  qed
qed

lemma example_aws_paired: "aws_paired example_aws"
  by (simp add: example_aws_def aws_paired_def)

lemma service_invoke: "determine_service ''InvokeModel'' = ''bedrock-runtime''"
  by code_simp

lemma proxyapp_get_client_first:
  "proxyapp_get_client approved_world ''InvokeModel'' example_proxyapp =
     (Inr \<lparr>client_service = ''bedrock-runtime'', client_region = ''us-east-1'',
           client_credentials = None\<rparr>,
      example_proxyapp\<lparr>instances := [(''bedrock-runtime'',
        \<lparr>client_service = ''bedrock-runtime'', client_region = ''us-east-1'',
         client_credentials = None\<rparr>)]\<rparr>)"
  by (simp add: proxyapp_get_client_def service_invoke request_defs Let_def)

lemma proxyapp_get_client_cached:
  "map_of (instances s) (determine_service op) = Some c \<Longrightarrow>
     proxyapp_get_client w op s = (Inr c, s)"
  by (simp add: proxyapp_get_client_def)

text \<open>
  Claim C6. A verdict of the gateway whose status is not \<open>approved\<close> makes the code raise
  \<open>HTTPException\<close> with status 403 inside a \<open>try\<close> block whose handler for every exception
  wraps it again: \<open>validate_request\<close> raises status 500 around it, and both \<open>predict\<close>
  endpoints answer with status 500. Every failure of \<open>predict\<close> in \<open>proxyapp.py\<close> and of
  \<open>validate_request\<close> has status 500, whatever the world, the request and the state. For
  the verdict \<open>{"status": "denied"}\<close> the only call made is the post to the gateway (and
  the identity refresh before it in the modular application): no backend call.
\<close>

theorem gateway_denial_answered_500:
  "(case fst (proxyapp_predict w request s) of
      Inl e \<Rightarrow> (\<exists>c. e = HTTPException 500 ''Error processing request: '' (Some c))
    | Inr r \<Rightarrow> True)
   \<and> (case fst (validate_request w payload g) of
      Inl e \<Rightarrow> (\<exists>d c. e = HTTPException 500 d (Some c))
    | Inr r \<Rightarrow> True)
   \<and> proxyapp_predict denied_world invoke_model_request example_proxyapp =
       (Inl (HTTPException 500 ''Error processing request: ''
              (Some (HTTPException 403 ''Request not approved by GCP Gateway'' None))),
        example_proxyapp, [GatewayPost])
   \<and> fst (validate_request denied_world (request_dict invoke_model_request) example_gateway) =
       Inl (HTTPException 500 ''Validation error: ''
             (Some (HTTPException 403 ''Request not approved by GCP Gateway'' None)))
   \<and> fst (main_predict denied_world invoke_model_request example_main) =
       Inl (HTTPException 500 ''Error processing request: ''
             (Some (HTTPException 500 ''Validation error: ''
                     (Some (HTTPException 403 ''Request not approved by GCP Gateway'' None)))))
   \<and> snd (snd (main_predict denied_world invoke_model_request example_main)) =
       [IdentityRefresh, GatewayPost]"
  using proxyapp_predict_Inl[of w request s] validate_request_Inl[of w payload g]
    proxyapp_denied validate_denied main_denied
  by simp

text \<open>
  Claim C7. \<open>call_bedrock_service\<close> turns \<open>InvalidOp\<close> into \<open>invalid_op\<close> (and
  \<open>InvokeModel\<close> into \<open>invoke_model\<close>); on a client without that attribute it raises
  \<open>HTTPException\<close> with status 400, which the handler of \<open>predict\<close> wraps into status
  500, the answer of the inbound endpoint; no backend call is made. Every failure of
  \<open>predict\<close> in \<open>main.py\<close> has status 500 as well.
\<close>

theorem invalid_operation_answered_500:
  "snake_case ''InvalidOp'' = ''invalid_op''
   \<and> snake_case ''InvokeModel'' = ''invoke_model''
   \<and> \<not> client_hasattr approved_world
         \<lparr>client_service = ''bedrock'', client_region = ''us-east-1'',
          client_credentials = None\<rparr> ''invalid_op''
   \<and> fst (call_bedrock_service approved_world invalid_op_request example_proxyapp) =
       Inl (HTTPException 400 ''Invalid Bedrock operation: InvalidOp'' None)
   \<and> fst (proxyapp_predict approved_world invalid_op_request example_proxyapp) =
       Inl (HTTPException 500 ''Error processing request: ''
             (Some (HTTPException 400 ''Invalid Bedrock operation: InvalidOp'' None)))
   \<and> snd (snd (proxyapp_predict approved_world invalid_op_request example_proxyapp)) =
       [GatewayPost]
   \<and> (case fst (main_predict w request s) of
        Inl e \<Rightarrow> (\<exists>c. e = HTTPException 500 ''Error processing request: '' (Some c))
      | Inr r \<Rightarrow> True)"
  using snake_invalid snake_invoke call_invalid predict_invalid main_predict_Inl[of w request s]
  by (simp add: request_defs)

text \<open>
  Claim C8. \<open>get_client\<close> of \<open>services/bedrock_client.py\<close> fetches the credentials and then
  subscripts them with \<open>AccessKeyId\<close>, a key the cached dictionary never has: after any
  run of operations on the credentials manager, for every world and operation name, it
  raises and returns no client. With a valid cache and with a fresh one it raises
  \<open>KeyError\<close> and caches nothing. \<open>get_client\<close> of \<open>proxyapp.py\<close> builds its client from
  the region alone, without credentials.
\<close>

theorem get_client_key_error:
  "isl (fst (get_client w op (s\<lparr>credentials_manager := fold aws_step ops example_aws\<rparr>)))
   \<and> get_client approved_world ''InvokeModel''
        (example_manager\<lparr>credentials_manager := example_aws_cached\<rparr>) =
       (Inl (KeyError ''AccessKeyId''),
        example_manager\<lparr>credentials_manager := example_aws_cached\<rparr>, [])
   \<and> fst (get_client approved_world ''InvokeModel'' example_manager) =
       Inl (KeyError ''AccessKeyId'')
   \<and> manager_instances (fst (snd (get_client approved_world ''InvokeModel'' example_manager)))
       = []
   \<and> proxyapp_get_client approved_world ''InvokeModel'' example_proxyapp =
       (Inr \<lparr>client_service = ''bedrock-runtime'', client_region = ''us-east-1'',
             client_credentials = None\<rparr>,
        example_proxyapp\<lparr>instances := [(''bedrock-runtime'',
          \<lparr>client_service = ''bedrock-runtime'', client_region = ''us-east-1'',
           client_credentials = None\<rparr>)]\<rparr>)"
proof -
  have "aws_paired (fold aws_step ops example_aws)"
    using example_aws_paired by (rule aws_fold_paired)
  then have "isl (fst (get_client w op
      (s\<lparr>credentials_manager := fold aws_step ops example_aws\<rparr>)))"
    by (intro get_client_fails) simp
  then show ?thesis
    using get_client_cached get_client_fresh proxyapp_get_client_first by simp
qed

end
